theory Spec2Isabelle
  imports Main
begin

section \<open>JavaScript values used by the services\<close>

text \<open>
  Strings are byte lists: the Chinese display literals of the source are written as their
  UTF-8 bytes. A thrown value is an error object with a name and a message.
\<close>

datatype js_error = JsError (err_name: string) (err_message: string)

definition Error :: "string \<Rightarrow> js_error" where
  "Error m = JsError ''Error'' m"

definition truthy :: "string option \<Rightarrow> bool" where
  "truthy s = (case s of None \<Rightarrow> False | Some t \<Rightarrow> t \<noteq> [])"

definition or_str :: "string option \<Rightarrow> string option \<Rightarrow> string option" where
  "or_str a b = (if truthy a then a else b)"

definition str_or :: "string option \<Rightarrow> string \<Rightarrow> string" where
  "str_or a d = (case a of None \<Rightarrow> d | Some t \<Rightarrow> if t = [] then d else t)"

definition or_else :: "'a option \<Rightarrow> 'a \<Rightarrow> 'a" where
  "or_else a d = (case a of None \<Rightarrow> d | Some v \<Rightarrow> v)"

section \<open>Data model (types.ts)\<close>

datatype ProcessingStatus = IDLE | PENDING | UPLOADING | PROCESSING | COMPLETED | ERROR | CANCELLED

datatype StepStatus = St_idle | St_processing | St_done | St_error | St_skipped

datatype ProcessingStep =
  Ps_queued | Ps_ocr | Ps_ocr_complete | Ps_grading | Ps_done | Ps_error | Ps_cancelled

datatype SubmissionType = Sub_image | Sub_text | Sub_markdown

datatype File = File (file_name: string)

record GrammarIssue =
  issue_type :: "string option"
  original :: string
  correction :: string
  explanation :: string

record GradingSchema =
  score :: int
  grade :: "string option"
  summary_cn :: string
  grammar_issues :: "GrammarIssue list"
  strengths :: "string list"
  improvements :: "string list"

record EssayData =
  essay_id :: string
  submissionType :: SubmissionType
  essay_file :: "File option"
  imagePreview :: "string option"
  rawText :: "string option"
  ocrText :: string
  status :: ProcessingStatus
  progressStep :: "ProcessingStep option"
  progressMessage :: "string option"
  studentName :: "string option"
  date :: "string option"
  topic :: "string option"
  addedAt :: "string option"
  batchId :: "string option"
  ocrStatus :: "StepStatus option"
  gradingStatus :: "StepStatus option"
  sourceFileName :: "string option"
  sourcePath :: "string option"
  gradingResult :: "GradingSchema option"
  errorMessage :: "string option"

section \<open>Persistence layer (persistence.ts)\<close>

text \<open>
  A stored essay is what \<open>JSON.parse\<close> hands to \<open>reviveEssay\<close>: the binary file handle is
  never stored, and every field that \<open>reviveEssay\<close> defaults with \<open>||\<close> may be absent.
\<close>

record PersistableEssay =
  p_id :: string
  p_submissionType :: SubmissionType
  p_imagePreview :: "string option"
  p_rawText :: "string option"
  p_ocrText :: "string option"
  p_status :: "ProcessingStatus option"
  p_progressStep :: "ProcessingStep option"
  p_progressMessage :: "string option"
  p_studentName :: "string option"
  p_date :: "string option"
  p_topic :: "string option"
  p_addedAt :: "string option"
  p_batchId :: "string option"
  p_ocrStatus :: "StepStatus option"
  p_gradingStatus :: "StepStatus option"
  p_sourceFileName :: "string option"
  p_sourcePath :: "string option"
  p_gradingResult :: "GradingSchema option"
  p_errorMessage :: "string option"

definition msg_resume_after_refresh :: string where
  "msg_resume_after_refresh =
     [CHR 0xE5, CHR 0x88, CHR 0xB7, CHR 0xE6, CHR 0x96, CHR 0xB0, CHR 0xE5, CHR 0x90, CHR 0x8E,
      CHR 0xE5, CHR 0x8F, CHR 0xAF, CHR 0xE9, CHR 0x87, CHR 0x8D, CHR 0xE6, CHR 0x96, CHR 0xB0,
      CHR 0xE5, CHR 0xBC, CHR 0x80, CHR 0xE5, CHR 0xA7, CHR 0x8B, CHR 0xE6, CHR 0x89, CHR 0xB9,
      CHR 0xE6, CHR 0x94, CHR 0xB9]"

definition msg_source_unavailable :: string where
  "msg_source_unavailable =
     [CHR 0xE6, CHR 0xBA, CHR 0x90, CHR 0xE5, CHR 0x9B, CHR 0xBE, CHR 0xE7, CHR 0x89, CHR 0x87,
      CHR 0xE4, CHR 0xB8, CHR 0x8D, CHR 0xE5, CHR 0x8F, CHR 0xAF, CHR 0xE7, CHR 0x94, CHR 0xA8,
      CHR 0xEF, CHR 0xBC, CHR 0x8C, CHR 0xE8, CHR 0xAF, CHR 0xB7, CHR 0xE9, CHR 0x87, CHR 0x8D,
      CHR 0xE6, CHR 0x96, CHR 0xB0, CHR 0xE4, CHR 0xB8, CHR 0x8A, CHR 0xE4, CHR 0xBC, CHR 0xA0,
      CHR 0xE5, CHR 0x90, CHR 0x8E, CHR 0xE5, CHR 0x86, CHR 0x8D, CHR 0xE8, CHR 0xAF, CHR 0x95]"

definition resetIfInterrupted :: "EssayData \<Rightarrow> EssayData" where
  "resetIfInterrupted essay =
     (if status essay \<noteq> PROCESSING then essay
      else essay\<lparr>
        status := PENDING,
        ocrStatus := (if ocrStatus essay = Some St_processing then Some St_idle else ocrStatus essay),
        gradingStatus :=
          (if gradingStatus essay = Some St_processing then Some St_idle else gradingStatus essay),
        progressStep := Some Ps_queued,
        progressMessage := Some msg_resume_after_refresh\<rparr>)"

definition markMissingSource :: "EssayData \<Rightarrow> EssayData" where
  "markMissingSource essay =
     (let lacksText = (ocrText essay = [] \<and> \<not> truthy (rawText essay)) in
      if submissionType essay \<noteq> Sub_image \<or> \<not> lacksText then essay
      else essay\<lparr>
        status := ERROR,
        ocrStatus := Some St_error,
        gradingStatus := Some St_skipped,
        progressStep := Some Ps_error,
        progressMessage := Some msg_source_unavailable,
        errorMessage := or_str (errorMessage essay) (Some msg_source_unavailable)\<rparr>)"

definition withDefaults :: "PersistableEssay \<Rightarrow> string option \<Rightarrow> EssayData" where
  "withDefaults essay fallbackAddedAt =
     \<lparr>essay_id = p_id essay,
      submissionType = p_submissionType essay,
      essay_file = None,
      imagePreview = p_imagePreview essay,
      rawText = p_rawText essay,
      ocrText = str_or (p_ocrText essay) [],
      status = or_else (p_status essay) PENDING,
      progressStep = Some (or_else (p_progressStep essay) Ps_queued),
      progressMessage = Some (str_or (p_progressMessage essay) ''Waiting in queue''),
      studentName = p_studentName essay,
      date = p_date essay,
      topic = p_topic essay,
      addedAt = or_str (p_addedAt essay) fallbackAddedAt,
      batchId = p_batchId essay,
      ocrStatus = Some (or_else (p_ocrStatus essay) St_idle),
      gradingStatus = Some (or_else (p_gradingStatus essay) St_idle),
      sourceFileName = p_sourceFileName essay,
      sourcePath = p_sourcePath essay,
      gradingResult = p_gradingResult essay,
      errorMessage = p_errorMessage essay\<rparr>"

definition reviveEssay :: "PersistableEssay \<Rightarrow> string option \<Rightarrow> EssayData" where
  "reviveEssay essay fallbackAddedAt =
     markMissingSource (resetIfInterrupted (withDefaults essay fallbackAddedAt))"

text \<open>
  The stored blob, as the load path inspects it. \<open>parsed?.essays\<close> is absent (undefined or
  another falsy value), a truthy value that is not an array, or an array; an array element
  is a stored essay or \<open>null\<close>, on which the first property read of \<open>reviveEssay\<close> raises a
  TypeError.
\<close>

datatype essays_field =
  Essays_absent | Essays_not_array | Essays_array "PersistableEssay option list"

record PersistedPayload =
  savedAt :: "string option"
  essays :: essays_field

datatype parsed_json = Parsed_null | Parsed PersistedPayload

text \<open>
  The browser as the load path sees it: whether \<open>window\<close> exists, what
  \<open>localStorage.getItem(STORAGE_KEY)\<close> gives (it may raise), what \<open>JSON.parse\<close> makes of a
  string (it raises a SyntaxError on malformed text), and the clock's ISO time.
\<close>

record storage_env =
  has_window :: bool
  getItem :: "js_error + string option"
  JSON_parse :: "string \<Rightarrow> js_error + parsed_json"
  now_iso :: string

fun revive_all :: "PersistableEssay option list \<Rightarrow> string option \<Rightarrow> js_error + EssayData list" where
  "revive_all [] fb = Inr []"
| "revive_all (None # es) fb = Inl (JsError ''TypeError'' ''Cannot read properties of null'')"
| "revive_all (Some e # es) fb =
     (case revive_all es fb of
        Inl x \<Rightarrow> Inl x
      | Inr rs \<Rightarrow> Inr (reviveEssay e fb # rs))"

definition load_try :: "storage_env \<Rightarrow> js_error + EssayData list" where
  "load_try env =
     (case getItem env of
        Inl e \<Rightarrow> Inl e
      | Inr raw \<Rightarrow>
          if \<not> truthy raw then Inr []
          else (case JSON_parse env (str_or raw []) of
                  Inl e \<Rightarrow> Inl e
                | Inr Parsed_null \<Rightarrow> Inr []
                | Inr (Parsed payload) \<Rightarrow>
                    (case essays payload of
                       Essays_absent \<Rightarrow> Inr []
                     | Essays_not_array \<Rightarrow> Inr []
                     | Essays_array es \<Rightarrow>
                         revive_all es (Some (str_or (savedAt payload) (now_iso env))))))"

definition loadPersistedEssays :: "storage_env \<Rightarrow> EssayData list" where
  "loadPersistedEssays env =
     (if \<not> has_window env then []
      else (case load_try env of Inl e \<Rightarrow> [] | Inr es \<Rightarrow> es))"


text \<open>
  Ways to speak about a store: \<open>holds_essays env payload es\<close> says that the browser holds a
  well-formed blob whose essay array is \<open>es\<close>; \<open>lacks_source e\<close> is the test of
  \<open>markMissingSource\<close> on the stored fields.
\<close>

definition holds_essays :: "storage_env \<Rightarrow> PersistedPayload \<Rightarrow> PersistableEssay list \<Rightarrow> bool" where
  "holds_essays env payload es =
     (has_window env \<and>
      (case getItem env of
         Inl e \<Rightarrow> False
       | Inr None \<Rightarrow> False
       | Inr (Some raw) \<Rightarrow> raw \<noteq> [] \<and> JSON_parse env raw = Inr (Parsed payload)) \<and>
      essays payload = Essays_array (map Some es))"

definition lacks_source :: "PersistableEssay \<Rightarrow> bool" where
  "lacks_source e =
     (p_submissionType e = Sub_image \<and> \<not> truthy (p_ocrText e) \<and> \<not> truthy (p_rawText e))"

text \<open>A concrete browser store and a concrete stored essay, for the closed theorems.\<close>

definition stored_blob :: "PersistableEssay option list \<Rightarrow> storage_env" where
  "stored_blob es =
     \<lparr>has_window = True,
      getItem = Inr (Some ''{...}''),
      JSON_parse = (\<lambda>raw. Inr (Parsed \<lparr>savedAt = Some ''2025-01-01T00:00:00.000Z'',
                                          essays = Essays_array es\<rparr>)),
      now_iso = ''2025-01-02T00:00:00.000Z''\<rparr>"

definition stored_essay :: "SubmissionType \<Rightarrow> string option \<Rightarrow> ProcessingStatus \<Rightarrow> PersistableEssay" where
  "stored_essay ty txt st =
     \<lparr>p_id = ''e1'', p_submissionType = ty, p_imagePreview = None, p_rawText = None,
      p_ocrText = txt, p_status = Some st, p_progressStep = Some Ps_ocr,
      p_progressMessage = Some ''working'', p_studentName = None, p_date = None,
      p_topic = None, p_addedAt = None, p_batchId = None,
      p_ocrStatus = Some St_processing, p_gradingStatus = Some St_idle,
      p_sourceFileName = None, p_sourcePath = None, p_gradingResult = None,
      p_errorMessage = None\<rparr>"

section \<open>OCR client (handwritingOcr.ts)\<close>

subsection \<open>Strings: join, includes, trim, toLowerCase\<close>

fun join :: "string \<Rightarrow> string list \<Rightarrow> string" where
  "join sep [] = []"
| "join sep [x] = x"
| "join sep (x # y # ys) = x @ sep @ join sep (y # ys)"

fun starts_with :: "string \<Rightarrow> string \<Rightarrow> bool" where
  "starts_with s [] = True"
| "starts_with [] (n # ns) = False"
| "starts_with (c # cs) (n # ns) = (c = n \<and> starts_with cs ns)"

fun includes_str :: "string \<Rightarrow> string \<Rightarrow> bool" where
  "includes_str [] needle = (needle = [])"
| "includes_str (c # cs) needle = (starts_with (c # cs) needle \<or> includes_str cs needle)"

text \<open>
  \<open>String.prototype.trim\<close> removes the white space and line terminators of ECMAScript
  from both ends: TAB, LF, VT, FF, CR, SPACE, U+00A0, U+1680, U+2000 to U+200A, U+2028,
  U+2029, U+202F, U+205F, U+3000 and U+FEFF, listed here in their UTF-8 encoding. On a
  UTF-8 string each of these byte sequences at the start, or at the end, is that
  character. \<open>strip\<close> removes the listed sequences from the start for as long as there
  is one; the end is the start of the reversed string.
\<close>

definition white_space :: "string list" where
  "white_space =
     [[CHR 0x09], [CHR 0x0A], [CHR 0x0B], [CHR 0x0C], [CHR 0x0D], [CHR 0x20],
      [CHR 0xC2, CHR 0xA0],
      [CHR 0xE1, CHR 0x9A, CHR 0x80],
      [CHR 0xE2, CHR 0x80, CHR 0x80], [CHR 0xE2, CHR 0x80, CHR 0x81],
      [CHR 0xE2, CHR 0x80, CHR 0x82], [CHR 0xE2, CHR 0x80, CHR 0x83],
      [CHR 0xE2, CHR 0x80, CHR 0x84], [CHR 0xE2, CHR 0x80, CHR 0x85],
      [CHR 0xE2, CHR 0x80, CHR 0x86], [CHR 0xE2, CHR 0x80, CHR 0x87],
      [CHR 0xE2, CHR 0x80, CHR 0x88], [CHR 0xE2, CHR 0x80, CHR 0x89],
      [CHR 0xE2, CHR 0x80, CHR 0x8A],
      [CHR 0xE2, CHR 0x80, CHR 0xA8], [CHR 0xE2, CHR 0x80, CHR 0xA9],
      [CHR 0xE2, CHR 0x80, CHR 0xAF],
      [CHR 0xE2, CHR 0x81, CHR 0x9F],
      [CHR 0xE3, CHR 0x80, CHR 0x80],
      [CHR 0xEF, CHR 0xBB, CHR 0xBF]]"

definition ws_len :: "string list \<Rightarrow> string \<Rightarrow> nat" where
  "ws_len ws s = (case find (starts_with s) ws of None \<Rightarrow> 0 | Some w \<Rightarrow> length w)"

function strip :: "string list \<Rightarrow> string \<Rightarrow> string" where
  "strip ws s = (if ws_len ws s = 0 then s else strip ws (drop (ws_len ws s) s))"
  by pat_completeness auto
termination
proof (relation "measure (\<lambda>(ws, s). length s)")
  show "wf (measure (\<lambda>(ws, s). length s))" by simp
next
  fix ws :: "string list" and s :: string
  assume n: "ws_len ws s \<noteq> 0"
  have "s \<noteq> []"
  proof
    assume e: "s = []"
    from n obtain w where f: "find (starts_with s) ws = Some w" and l: "length w \<noteq> 0"
      by (auto simp: ws_len_def split: option.splits)
    from f have "starts_with s w" by (auto simp: find_Some_iff)
    with e l show False by (cases w) simp_all
  qed
  with n show "((ws, drop (ws_len ws s) s), (ws, s)) \<in> measure (\<lambda>(ws, s). length s)"
    by simp
qed

declare strip.simps [simp del]

definition trim :: "string \<Rightarrow> string" where
  "trim s = rev (strip (map rev white_space) (rev (strip white_space s)))"

text \<open>
  \<open>toLowerCase\<close> is used only to look for the ASCII word "cancelled" in an error
  message. No character outside A to Z has a lower case among the letters of that word,
  so mapping A to Z decides the search as the code does.
\<close>

definition lower_char :: "char \<Rightarrow> char" where
  "lower_char c =
     (if c = CHR ''A'' then CHR ''a'' else if c = CHR ''B'' then CHR ''b''
      else if c = CHR ''C'' then CHR ''c'' else if c = CHR ''D'' then CHR ''d''
      else if c = CHR ''E'' then CHR ''e'' else if c = CHR ''F'' then CHR ''f''
      else if c = CHR ''G'' then CHR ''g'' else if c = CHR ''H'' then CHR ''h''
      else if c = CHR ''I'' then CHR ''i'' else if c = CHR ''J'' then CHR ''j''
      else if c = CHR ''K'' then CHR ''k'' else if c = CHR ''L'' then CHR ''l''
      else if c = CHR ''M'' then CHR ''m'' else if c = CHR ''N'' then CHR ''n''
      else if c = CHR ''O'' then CHR ''o'' else if c = CHR ''P'' then CHR ''p''
      else if c = CHR ''Q'' then CHR ''q'' else if c = CHR ''R'' then CHR ''r''
      else if c = CHR ''S'' then CHR ''s'' else if c = CHR ''T'' then CHR ''t''
      else if c = CHR ''U'' then CHR ''u'' else if c = CHR ''V'' then CHR ''v''
      else if c = CHR ''W'' then CHR ''w'' else if c = CHR ''X'' then CHR ''x''
      else if c = CHR ''Y'' then CHR ''y'' else if c = CHR ''Z'' then CHR ''z''
      else c)"

definition toLowerCase :: "string \<Rightarrow> string" where
  "toLowerCase s = map lower_char s"

subsection \<open>The vendor's responses and the environment of one call\<close>

record page =
  page_number :: "int option"
  transcript :: "string option"

record DocumentResult =
  dr_status :: "string option"
  dr_results :: "page list option"
  dr_message :: "string option"
  retryAfterMs :: "int option"
  httpStatus :: int

text \<open>
  The \<open>Retry-After\<close> header as \<open>Number.parseFloat\<close> reads it: absent (or empty), present
  but not a number, or a number of seconds. Whole seconds only; the fractional values
  of a floating-point header are outside this model.
\<close>

datatype retry_after = No_header | Not_a_number | Seconds int

record status_response =
  resp_status :: int
  resp_retry_after :: retry_after
  body_status :: "string option"
  body_results :: "page list option"
  body_message :: "string option"
  body_error0 :: "string option"

record upload_body =
  up_id :: "string option"
  up_message :: "string option"
  up_error0 :: "string option"

record upload_response =
  up_ok :: bool
  up_body :: "js_error + upload_body"

text \<open>
  What one call of \<open>transcribeHandwriting\<close> observes of the outside world: the configured
  key, the abort signal at the points where the code consults it (on entry, before the
  status request number k, during the delay after it), the outcome of the upload request
  and of the status request number k (a rejected \<open>fetch\<close> is \<open>Inl\<close>), and the reading of
  \<open>Date.now() - startedAt\<close> when the loop condition is evaluated with \<open>attempt = k\<close>.
\<close>

record ocr_env =
  HANDWRITING_OCR_API_KEY :: "string option"
  aborted_at_start :: bool
  upload_fetch :: "File \<Rightarrow> js_error + upload_response"
  aborted_before_poll :: "nat \<Rightarrow> bool"
  status_fetch :: "string \<Rightarrow> nat \<Rightarrow> js_error + status_response"
  elapsed_ms :: "nat \<Rightarrow> int"
  delay_aborted :: "nat \<Rightarrow> bool"

definition cancel_error :: js_error where
  "cancel_error = Error ''Processing cancelled''"

definition uploadDocument :: "ocr_env \<Rightarrow> File \<Rightarrow> js_error + string" where
  "uploadDocument env f =
     (if \<not> truthy (HANDWRITING_OCR_API_KEY env) then Inl (Error ''Handwriting OCR API key is missing'')
      else if aborted_at_start env then Inl cancel_error
      else (case upload_fetch env f of
              Inl e \<Rightarrow> Inl e
            | Inr response \<Rightarrow>
                (case up_body response of
                   Inl e \<Rightarrow> Inl e
                 | Inr data \<Rightarrow>
                     if \<not> up_ok response
                     then Inl (Error (str_or (or_str (up_message data) (up_error0 data))
                                        ''OCR upload failed''))
                     else if \<not> truthy (up_id data)
                     then Inl (Error ''OCR upload did not return an id'')
                     else Inr (str_or (up_id data) []))))"

definition fetchDocumentStatus :: "ocr_env \<Rightarrow> string \<Rightarrow> nat \<Rightarrow> js_error + DocumentResult" where
  "fetchDocumentStatus env documentId k =
     (if \<not> truthy (HANDWRITING_OCR_API_KEY env) then Inl (Error ''Handwriting OCR API key is missing'')
      else if aborted_before_poll env k then Inl cancel_error
      else (case status_fetch env documentId k of
              Inl e \<Rightarrow> Inl e
            | Inr response \<Rightarrow>
                Inr \<lparr>dr_status =
                       or_str (body_status response)
                         (if resp_status response = 202 then Some ''processing'' else None),
                     dr_results = body_results response,
                     dr_message = or_str (body_message response) (body_error0 response),
                     retryAfterMs =
                       (case resp_retry_after response of
                          Seconds s \<Rightarrow> Some (s * 1000)
                        | No_header \<Rightarrow> None
                        | Not_a_number \<Rightarrow> None),
                     httpStatus = resp_status response\<rparr>))"

definition request_sent :: "ocr_env \<Rightarrow> nat \<Rightarrow> nat" where
  "request_sent env k =
     (if truthy (HANDWRITING_OCR_API_KEY env) \<and> \<not> aborted_before_poll env k then 1 else 0)"

definition collectTranscript :: "page list option \<Rightarrow> string" where
  "collectTranscript results =
     (case results of
        None \<Rightarrow> []
      | Some pages \<Rightarrow>
          trim (join [CHR 0x0A, CHR 0x0A]
                  (filter (\<lambda>t. t \<noteq> []) (map (\<lambda>p. str_or (transcript p) []) pages))))"

subsection \<open>The polling loop\<close>

definition waitMs :: "int \<Rightarrow> int \<Rightarrow> DocumentResult \<Rightarrow> int" where
  "waitMs pollIntervalMs dynamicDelay result =
     (if httpStatus result = 429
      then (case retryAfterMs result of
              Some r \<Rightarrow> r
            | None \<Rightarrow> min (dynamicDelay * 2) 30000)
      else if httpStatus result = 404 then max dynamicDelay (pollIntervalMs * 2)
      else dynamicDelay)"

definition nextDelay :: "int \<Rightarrow> int \<Rightarrow> DocumentResult \<Rightarrow> int" where
  "nextDelay pollIntervalMs dynamicDelay result =
     min (waitMs pollIntervalMs dynamicDelay result + pollIntervalMs)
         (if httpStatus result = 429 then 45000 else 20000)"

text \<open>
  A run returns its outcome together with a log of what it did: the iterations that
  reached the backoff delay (with the delay they started from, the wait they asked for
  and the delay they left), the number of status requests sent, and the transcript handed
  to \<open>persistTranscript\<close> (a best-effort side channel whose failures are not raised).
\<close>

record iteration =
  it_attempt :: nat
  it_result :: DocumentResult
  it_delay :: int
  it_wait :: int
  it_next_delay :: int

record ocr_run =
  iterations :: "iteration list"
  polls :: nat
  saved :: "string option"
  outcome :: "js_error + string"

definition logged :: "iteration \<Rightarrow> ocr_run \<Rightarrow> ocr_run" where
  "logged it r = r\<lparr>iterations := it # iterations r, polls := Suc (polls r)\<rparr>"

definition msg_retry_later :: string where
  "msg_retry_later =
     [CHR 0x20, CHR 0xE8, CHR 0xAF, CHR 0xB7, CHR 0xE7, CHR 0xA8, CHR 0x8D, CHR 0xE5, CHR 0x90,
      CHR 0x8E, CHR 0xE9, CHR 0x87, CHR 0x8D, CHR 0xE8, CHR 0xAF, CHR 0x95, CHR 0xE3, CHR 0x80,
      CHR 0x82]"

definition timeout_error :: "string \<Rightarrow> js_error" where
  "timeout_error documentId =
     Error (''OCR request timed out before completion (document id: '' @ documentId @ '').''
            @ msg_retry_later)"

definition finalCheck :: "ocr_env \<Rightarrow> string \<Rightarrow> nat \<Rightarrow> ocr_run" where
  "finalCheck env documentId attempt =
     (case fetchDocumentStatus env documentId attempt of
        Inl e \<Rightarrow>
          \<lparr>iterations = [], polls = request_sent env attempt, saved = None, outcome = Inl e\<rparr>
      | Inr finalResult \<Rightarrow>
          (let transcript = collectTranscript (dr_results finalResult) in
           if dr_status finalResult = Some ''processed'' \<and> transcript \<noteq> []
           then \<lparr>iterations = [], polls = 1, saved = Some transcript, outcome = Inr transcript\<rparr>
           else \<lparr>iterations = [], polls = 1, saved = None,
                 outcome = Inl (timeout_error documentId)\<rparr>))"

function pollLoop :: "ocr_env \<Rightarrow> string \<Rightarrow> int \<Rightarrow> nat \<Rightarrow> int \<Rightarrow> nat \<Rightarrow> int \<Rightarrow> ocr_run" where
  "pollLoop env documentId pollIntervalMs maxAttempts maxWaitMs attempt dynamicDelay =
     (if attempt < maxAttempts \<and> elapsed_ms env attempt < maxWaitMs
      then (case fetchDocumentStatus env documentId attempt of
              Inl e \<Rightarrow>
                \<lparr>iterations = [], polls = request_sent env attempt, saved = None,
                 outcome = Inl e\<rparr>
            | Inr result \<Rightarrow>
                if dr_status result = Some ''processed''
                then (let transcript = collectTranscript (dr_results result) in
                      if transcript \<noteq> []
                      then \<lparr>iterations = [], polls = 1, saved = Some transcript,
                            outcome = Inr transcript\<rparr>
                      else \<lparr>iterations = [], polls = 1, saved = None,
                            outcome = Inl (Error ''OCR finished but returned empty transcript'')\<rparr>)
                else if dr_status result = Some ''failed''
                then \<lparr>iterations = [], polls = 1, saved = None,
                      outcome = Inl (Error (str_or (dr_message result)
                                              ''Handwriting OCR processing failed''))\<rparr>
                else (let it = \<lparr>it_attempt = attempt, it_result = result,
                                it_delay = dynamicDelay,
                                it_wait = waitMs pollIntervalMs dynamicDelay result,
                                it_next_delay = nextDelay pollIntervalMs dynamicDelay result\<rparr>
                      in if delay_aborted env attempt
                         then \<lparr>iterations = [it], polls = 1, saved = None,
                               outcome = Inl cancel_error\<rparr>
                         else logged it
                                (pollLoop env documentId pollIntervalMs maxAttempts maxWaitMs
                                   (Suc attempt)
                                   (nextDelay pollIntervalMs dynamicDelay result))))
      else finalCheck env documentId attempt)"
  by pat_completeness auto
termination
  by (relation "measure (\<lambda>(env, documentId, pollIntervalMs, maxAttempts, maxWaitMs, attempt,
                          dynamicDelay). maxAttempts - attempt)") auto

declare pollLoop.simps [simp del]

record ocr_options =
  opt_pollIntervalMs :: "int option"
  opt_maxAttempts :: "nat option"
  opt_maxWaitMs :: "int option"

definition transcribeHandwriting :: "ocr_env \<Rightarrow> File \<Rightarrow> ocr_options \<Rightarrow> ocr_run" where
  "transcribeHandwriting env f options =
     (let pollIntervalMs = or_else (opt_pollIntervalMs options) 2000;
          maxAttempts = or_else (opt_maxAttempts options) 120;
          maxWaitMs = or_else (opt_maxWaitMs options) (4 * 60 * 1000)
      in if aborted_at_start env
         then \<lparr>iterations = [], polls = 0, saved = None, outcome = Inl cancel_error\<rparr>
         else (case uploadDocument env f of
                 Inl e \<Rightarrow> \<lparr>iterations = [], polls = 0, saved = None, outcome = Inl e\<rparr>
               | Inr documentId \<Rightarrow>
                   pollLoop env documentId pollIntervalMs maxAttempts maxWaitMs 0 pollIntervalMs))"

definition default_options :: ocr_options where
  "default_options = \<lparr>opt_pollIntervalMs = None, opt_maxAttempts = None, opt_maxWaitMs = None\<rparr>"

subsection \<open>Vocabulary for statements about a polling run\<close>

text \<open>
  A status request is \<open>still_pending\<close> when it resolves to a result that is neither
  "processed" nor "failed" and the delay after it is not aborted, so that the loop goes on;
  \<open>within_caps\<close> is the loop condition; \<open>chained\<close> says that a log of iterations starts
  from a given delay and that each iteration computes its wait and the next delay as the
  loop body does, handing the delay on to the following iteration.
\<close>

definition still_pending :: "ocr_env \<Rightarrow> string \<Rightarrow> nat \<Rightarrow> bool" where
  "still_pending env documentId k =
     (case fetchDocumentStatus env documentId k of
        Inl e \<Rightarrow> False
      | Inr result \<Rightarrow>
          dr_status result \<noteq> Some ''processed'' \<and> dr_status result \<noteq> Some ''failed''
          \<and> \<not> delay_aborted env k)"

definition within_caps :: "ocr_env \<Rightarrow> nat \<Rightarrow> int \<Rightarrow> nat \<Rightarrow> bool" where
  "within_caps env maxAttempts maxWaitMs k = (k < maxAttempts \<and> elapsed_ms env k < maxWaitMs)"

fun chained :: "ocr_env \<Rightarrow> string \<Rightarrow> int \<Rightarrow> int \<Rightarrow> iteration list \<Rightarrow> bool" where
  "chained env documentId pollIntervalMs d [] = True"
| "chained env documentId pollIntervalMs d (it # its) =
     (it_delay it = d \<and>
      fetchDocumentStatus env documentId (it_attempt it) = Inr (it_result it) \<and>
      it_wait it = waitMs pollIntervalMs d (it_result it) \<and>
      it_next_delay it = nextDelay pollIntervalMs d (it_result it) \<and>
      chained env documentId pollIntervalMs (it_next_delay it) its)"

text \<open>A concrete vendor for the closed theorems: every request succeeds with the given
  response; the clock is given; nothing is aborted.\<close>

definition vendor :: "(nat \<Rightarrow> status_response) \<Rightarrow> (nat \<Rightarrow> int) \<Rightarrow> ocr_env" where
  "vendor responses clock =
     \<lparr>HANDWRITING_OCR_API_KEY = Some ''key'',
      aborted_at_start = False,
      upload_fetch = (\<lambda>f. Inr \<lparr>up_ok = True,
                                 up_body = Inr \<lparr>up_id = Some ''doc-1'', up_message = None,
                                                up_error0 = None\<rparr>\<rparr>),
      aborted_before_poll = (\<lambda>k. False),
      status_fetch = (\<lambda>documentId k. Inr (responses k)),
      elapsed_ms = clock,
      delay_aborted = (\<lambda>k. False)\<rparr>"

definition processing_response :: status_response where
  "processing_response =
     \<lparr>resp_status = 200, resp_retry_after = No_header, body_status = Some ''processing'',
      body_results = None, body_message = None, body_error0 = None\<rparr>"

definition processed_pages :: "page list \<Rightarrow> status_response" where
  "processed_pages ps =
     \<lparr>resp_status = 200, resp_retry_after = No_header, body_status = Some ''processed'',
      body_results = Some ps, body_message = None, body_error0 = None\<rparr>"

definition processed_response :: "string list \<Rightarrow> status_response" where
  "processed_response ts =
     processed_pages (map (\<lambda>t. \<lparr>page_number = None, transcript = Some t\<rparr>) ts)"

definition rate_limited_response :: "retry_after \<Rightarrow> status_response" where
  "rate_limited_response ra =
     \<lparr>resp_status = 429, resp_retry_after = ra, body_status = None,
      body_results = None, body_message = None, body_error0 = None\<rparr>"

section \<open>Model router (aiAgent.ts)\<close>

datatype AIProvider = Openai | Openrouter | Gemini | Deepseek | Other_provider string

record ModelSettings =
  provider :: AIProvider
  model :: string

datatype StudentLevel = ELEMENTARY | MIDDLE | HIGH | COLLEGE

record GradingCriteria =
  maxScore :: int
  focusAreas :: "string list"

record GradingPrompts =
  summaryPrompt :: string
  strengthsPrompt :: string
  improvementsPrompt :: string

record AgentConfig =
  cfg_level :: StudentLevel
  cfg_criteria :: GradingCriteria
  cfg_model :: ModelSettings
  cfg_prompts :: "GradingPrompts option"

record image_data =
  base64 :: string
  mimeType :: string

record PromptBundle =
  systemPrompt :: string
  userPrompt :: string
  image :: "image_data option"

text \<open>The constants of config.ts, read from the build environment.\<close>

record api_config =
  OPENAI_API_KEY :: "string option"
  OPENAI_BASE_URL :: string
  OPENROUTER_API_KEY :: "string option"
  OPENROUTER_BASE_URL :: string
  GEMINI_API_KEY :: "string option"
  GEMINI_BASE_URL :: string
  DEEPSEEK_API_KEY :: "string option"
  DEEPSEEK_BASE_URL :: string
  APP_URL :: string
  APP_NAME :: string

text \<open>
  One HTTP request of the router (the constant fields of the body, temperature and
  response format, are left out), and what \<open>fetch\<close> and \<open>response.json()\<close> give for it.
  Of the response body only the places the code reads are kept: \<open>data?.error?.message\<close>,
  \<open>data?.message\<close>, the content of the first choice (chat completions) and the parts of
  the first candidate (generate content).
\<close>

datatype endpoint = Chat_completions | Generate_content

record http_request =
  req_endpoint :: endpoint
  req_url :: string
  req_headers :: "(string \<times> string) list"
  req_model :: string
  req_bundle :: PromptBundle

record content_part =
  part_type :: "string option"
  part_text :: "string option"

datatype message_content =
  Content_missing | Content_string string | Content_parts "content_part list" | Content_other

record response_body =
  error_message :: "string option"
  top_message :: "string option"
  choice_content :: message_content
  candidate_parts :: "content_part list option"

record http_response =
  resp_ok :: bool
  resp_json :: "js_error + response_body"

type_synonym fetch = "http_request \<Rightarrow> js_error + http_response"

type_synonym routed = "http_request list \<times> (js_error + string)"

definition unsupported_format :: "string \<Rightarrow> js_error" where
  "unsupported_format providerName = Error (providerName @ '' returned unsupported content format'')"

definition runOpenAIStyleModel ::
  "fetch \<Rightarrow> PromptBundle \<Rightarrow> string \<Rightarrow> string option \<Rightarrow> string \<Rightarrow> string \<Rightarrow>
   (string \<times> string) list \<Rightarrow> bool \<Rightarrow> routed" where
  "runOpenAIStyleModel net bundle modelId apiKey baseUrl providerName extraHeaders aborted =
     (if \<not> truthy apiKey then ([], Inl (Error (providerName @ '' API key is missing'')))
      else if aborted then ([], Inl cancel_error)
      else
        (let request =
               \<lparr>req_endpoint = Chat_completions,
                req_url = baseUrl @ ''/chat/completions'',
                req_headers =
                  [(''Content-Type'', ''application/json''),
                   (''Authorization'', ''Bearer '' @ str_or apiKey [])] @ extraHeaders,
                req_model = (if modelId = [] then ''gpt-4o-mini'' else modelId),
                req_bundle = bundle\<rparr>
         in ([request],
             (case net request of
                Inl e \<Rightarrow> Inl e
              | Inr response \<Rightarrow>
                  (case resp_json response of
                     Inl e \<Rightarrow> Inl e
                   | Inr data \<Rightarrow>
                       if \<not> resp_ok response
                       then Inl (Error (str_or (or_str (error_message data) (top_message data))
                                          (providerName @ '' request failed'')))
                       else (case choice_content data of
                               Content_missing \<Rightarrow> Inl (Error (''No response from '' @ providerName))
                             | Content_string s \<Rightarrow>
                                 if s = [] then Inl (Error (''No response from '' @ providerName))
                                 else Inr s
                             | Content_parts parts \<Rightarrow>
                                 (case find (\<lambda>p. part_type p = Some ''text'') parts of
                                    None \<Rightarrow> Inl (unsupported_format providerName)
                                  | Some p \<Rightarrow>
                                      if truthy (part_text p) then Inr (str_or (part_text p) [])
                                      else Inl (unsupported_format providerName))
                             | Content_other \<Rightarrow> Inl (unsupported_format providerName)))))))"

definition strip_trailing_slash :: "string \<Rightarrow> string" where
  "strip_trailing_slash s = (if s \<noteq> [] \<and> last s = CHR ''/'' then butlast s else s)"

definition runGeminiModel ::
  "fetch \<Rightarrow> PromptBundle \<Rightarrow> string \<Rightarrow> string option \<Rightarrow> string \<Rightarrow> string \<Rightarrow> bool \<Rightarrow> routed" where
  "runGeminiModel net bundle modelId apiKey baseUrl providerName aborted =
     (if \<not> truthy apiKey then ([], Inl (Error (providerName @ '' API key is missing'')))
      else if aborted then ([], Inl cancel_error)
      else
        (let request =
               \<lparr>req_endpoint = Generate_content,
                req_url = strip_trailing_slash baseUrl @ ''/models/'' @ modelId
                          @ '':generateContent?key='' @ str_or apiKey [],
                req_headers = [(''Content-Type'', ''application/json'')],
                req_model = modelId,
                req_bundle = bundle\<rparr>
         in ([request],
             (case net request of
                Inl e \<Rightarrow> Inl e
              | Inr response \<Rightarrow>
                  (case resp_json response of
                     Inl e \<Rightarrow> Inl e
                   | Inr data \<Rightarrow>
                       if \<not> resp_ok response
                       then Inl (Error (str_or (or_str (error_message data) (top_message data))
                                          (providerName @ '' request failed'')))
                       else (case candidate_parts data of
                               None \<Rightarrow> Inl (unsupported_format providerName)
                             | Some parts \<Rightarrow>
                                 (case find (\<lambda>p. truthy (part_text p)) parts of
                                    None \<Rightarrow> Inl (unsupported_format providerName)
                                  | Some p \<Rightarrow> Inr (str_or (part_text p) []))))))))"

definition routeModel :: "fetch \<Rightarrow> api_config \<Rightarrow> PromptBundle \<Rightarrow> AgentConfig \<Rightarrow> bool \<Rightarrow> routed" where
  "routeModel net keys bundle config aborted =
     (if aborted then ([], Inl cancel_error)
      else (case provider (cfg_model config) of
              Openai \<Rightarrow>
                runOpenAIStyleModel net bundle (model (cfg_model config)) (OPENAI_API_KEY keys)
                  (OPENAI_BASE_URL keys) ''OpenAI'' [] aborted
            | Gemini \<Rightarrow>
                runGeminiModel net bundle
                  (if model (cfg_model config) = [] then ''gemini-1.5-flash''
                   else model (cfg_model config))
                  (GEMINI_API_KEY keys) (GEMINI_BASE_URL keys) ''Gemini'' aborted
            | Deepseek \<Rightarrow>
                runOpenAIStyleModel net bundle
                  (if model (cfg_model config) = [] then ''deepseek-chat''
                   else model (cfg_model config))
                  (DEEPSEEK_API_KEY keys) (DEEPSEEK_BASE_URL keys) ''DeepSeek'' [] aborted
            | Openrouter \<Rightarrow>
                runOpenAIStyleModel net bundle (model (cfg_model config)) (OPENROUTER_API_KEY keys)
                  (OPENROUTER_BASE_URL keys) ''OpenRouter''
                  [(''HTTP-Referer'', APP_URL keys), (''X-Title'', APP_NAME keys)] aborted
            | Other_provider p \<Rightarrow>
                runOpenAIStyleModel net bundle (model (cfg_model config)) (OPENAI_API_KEY keys)
                  (OPENAI_BASE_URL keys) ''OpenAI'' [] aborted))"

text \<open>Concrete inputs for the closed theorems.\<close>

definition a_bundle :: PromptBundle where
  "a_bundle = \<lparr>systemPrompt = ''You are an expert English Teacher'',
               userPrompt = ''Essay Text: I has a dog'', image = None\<rparr>"

definition config_for :: "AIProvider \<Rightarrow> string \<Rightarrow> AgentConfig" where
  "config_for p m =
     \<lparr>cfg_level = MIDDLE,
      cfg_criteria = \<lparr>maxScore = 20, focusAreas = [''Grammar'', ''Vocabulary'']\<rparr>,
      cfg_model = \<lparr>provider = p, model = m\<rparr>,
      cfg_prompts = None\<rparr>"

definition keys_without_openai :: api_config where
  "keys_without_openai =
     \<lparr>OPENAI_API_KEY = None, OPENAI_BASE_URL = ''https://api.openai.com/v1'',
      OPENROUTER_API_KEY = Some ''or-key'', OPENROUTER_BASE_URL = ''https://openrouter.ai/api/v1'',
      GEMINI_API_KEY = Some ''g-key'',
      GEMINI_BASE_URL = ''https://generativelanguage.googleapis.com/v1beta'',
      DEEPSEEK_API_KEY = Some ''d-key'', DEEPSEEK_BASE_URL = ''https://api.deepseek.com/v1'',
      APP_URL = ''http://localhost'', APP_NAME = ''EssayFlow AI''\<rparr>"

definition grading_reply :: fetch where
  "grading_reply request =
     Inr \<lparr>resp_ok = True,
          resp_json = Inr \<lparr>error_message = None, top_message = None,
                            choice_content = Content_string ''{...}'',
                            candidate_parts = None\<rparr>\<rparr>"

section \<open>Essay processing agent (aiAgent.ts)\<close>

definition msg_user_cancelled :: string where
  "msg_user_cancelled =
     [CHR 0xE7, CHR 0x94, CHR 0xA8, CHR 0xE6, CHR 0x88, CHR 0xB7, CHR 0xE5, CHR 0xB7,
      CHR 0xB2, CHR 0xE5, CHR 0x8F, CHR 0x96, CHR 0xE6, CHR 0xB6, CHR 0x88, CHR 0xE6,
      CHR 0x89, CHR 0xB9, CHR 0xE6, CHR 0x94, CHR 0xB9]"

definition msg_grading_done :: string where
  "msg_grading_done =
     [CHR 0xE6, CHR 0x89, CHR 0xB9, CHR 0xE6, CHR 0x94, CHR 0xB9, CHR 0xE5, CHR 0xAE,
      CHR 0x8C, CHR 0xE6, CHR 0x88, CHR 0x90]"

definition msg_ocr_running :: string where
  "msg_ocr_running =
     [CHR 0xE6, CHR 0xAD, CHR 0xA3, CHR 0xE5, CHR 0x9C, CHR 0xA8, CHR 0xE6, CHR 0x89,
      CHR 0xA7, CHR 0xE8, CHR 0xA1, CHR 0x8C, CHR 0xE6, CHR 0x89, CHR 0x8B, CHR 0xE5,
      CHR 0x86, CHR 0x99]
     @ ''OCR...''"

definition msg_ocr_done_prepare :: string where
  "msg_ocr_done_prepare =
     ''OCR''
     @ [CHR 0xE5, CHR 0xAE, CHR 0x8C, CHR 0xE6, CHR 0x88, CHR 0x90, CHR 0xEF, CHR 0xBC,
      CHR 0x8C, CHR 0xE5, CHR 0x87, CHR 0x86, CHR 0xE5, CHR 0xA4, CHR 0x87, CHR 0xE6,
      CHR 0x89, CHR 0xB9, CHR 0xE6, CHR 0x94, CHR 0xB9]"

definition msg_ocr_failed_continue :: string where
  "msg_ocr_failed_continue =
     ''OCR''
     @ [CHR 0xE5, CHR 0xA4, CHR 0xB1, CHR 0xE8, CHR 0xB4, CHR 0xA5, CHR 0xEF, CHR 0xBC,
      CHR 0x8C, CHR 0xE7, CHR 0xBB, CHR 0xA7, CHR 0xE7, CHR 0xBB, CHR 0xAD, CHR 0xE5,
      CHR 0xB0, CHR 0x9D, CHR 0xE8, CHR 0xAF, CHR 0x95, CHR 0xE7, CHR 0x9B, CHR 0xB4,
      CHR 0xE6, CHR 0x8E, CHR 0xA5, CHR 0xE6, CHR 0x89, CHR 0xB9, CHR 0xE6, CHR 0x94,
      CHR 0xB9]"

definition msg_grading_retry :: string where
  "msg_grading_retry =
     ''AI''
     @ [CHR 0xE6, CHR 0x89, CHR 0xB9, CHR 0xE6, CHR 0x94, CHR 0xB9, CHR 0xE9, CHR 0x87,
      CHR 0x8D, CHR 0xE8, CHR 0xAF, CHR 0x95, CHR 0xE4, CHR 0xB8, CHR 0xAD]
     @ ''...''"

definition msg_grading_running :: string where
  "msg_grading_running =
     ''AI''
     @ [CHR 0xE6, CHR 0x89, CHR 0xB9, CHR 0xE6, CHR 0x94, CHR 0xB9, CHR 0xE4, CHR 0xB8,
      CHR 0xAD]
     @ ''...''"

definition msg_grading_with_open :: string where
  "msg_grading_with_open =
     ''AI''
     @ [CHR 0xE6, CHR 0x89, CHR 0xB9, CHR 0xE6, CHR 0x94, CHR 0xB9, CHR 0xE4, CHR 0xB8,
      CHR 0xAD, CHR 0xEF, CHR 0xBC, CHR 0x88]"

definition msg_grading_with_close :: string where
  "msg_grading_with_close =
     [CHR 0xEF, CHR 0xBC, CHR 0x89]"

text \<open>
  What the model's JSON answer gives once parsed: the fields the agent reads.
  \<open>JSON.parse\<close> raises on malformed text and may yield \<open>null\<close>; the agent then still
  reports the step "done" before the first property read of the reply raises a TypeError.
\<close>

record model_reply =
  r_studentName :: "string option"
  r_date :: "string option"
  r_ocrText :: "string option"
  r_gradingResult :: "GradingSchema option"

text \<open>
  What one run of \<open>processEssayAgent\<close> observes of the outside world: the OCR vendor (for
  the call of \<open>transcribeHandwriting\<close>), the abort signal at the three points where the
  agent and the router read it (on entry, before grading, at dispatch), the file reader,
  the configuration constants, the network, the JSON parser and the clock. The prompt
  templates are string literals interpolating the configuration and the essay; their
  rendering is a parameter, since no claim depends on their text.
\<close>

record agent_env =
  ocr_vendor :: ocr_env
  aborted_on_entry :: bool
  aborted_before_grading :: bool
  aborted_at_dispatch :: bool
  fileToBase64 :: "File \<Rightarrow> js_error + image_data"
  api_keys :: api_config
  http :: fetch
  parse_reply :: "string \<Rightarrow> js_error + model_reply option"
  today :: string
  render_system :: "AgentConfig \<Rightarrow> string"
  render_user :: "AgentConfig \<Rightarrow> EssayData \<Rightarrow> string option \<Rightarrow> string"

definition buildPromptBundle ::
  "agent_env \<Rightarrow> EssayData \<Rightarrow> AgentConfig \<Rightarrow> string \<Rightarrow> js_error + PromptBundle" where
  "buildPromptBundle env essay config providedText =
     (let baseText = trim (str_or (Some providedText) (str_or (rawText essay) [])) in
      if baseText \<noteq> []
      then Inr \<lparr>systemPrompt = render_system env config,
                userPrompt = render_user env config essay (Some baseText),
                image = None\<rparr>
      else (case essay_file essay of
              None \<Rightarrow> Inl (Error ''No file provided for image submission'')
            | Some f \<Rightarrow>
                (case fileToBase64 env f of
                   Inl e \<Rightarrow> Inl e
                 | Inr fileData \<Rightarrow>
                     Inr \<lparr>systemPrompt = render_system env config,
                          userPrompt = render_user env config essay None,
                          image = Some fileData\<rparr>)))"

text \<open>
  The effects of a run, in order: each call of \<open>onProgress\<close>, each call of
  \<open>transcribeHandwriting\<close> (with the run of the OCR client it stands for: every request
  to the OCR vendor is made inside such a call), and each request of the model router.
\<close>

record progress_update =
  upd_step :: ProcessingStep
  upd_message :: string
  upd_ocrText :: "string option"

datatype agent_event = Progress progress_update | Transcribe File ocr_run | Request http_request

record agent_try_result =
  try_events :: "agent_event list"
  textForModel :: string
  try_result :: "js_error + EssayData"

definition ocr_step :: "agent_env \<Rightarrow> EssayData \<Rightarrow> bool \<Rightarrow> agent_event list \<times> string" where
  "ocr_step env essay skipOcr =
     (let text0 = str_or (rawText essay) (ocrText essay) in
      case essay_file essay of
        None \<Rightarrow> ([], text0)
      | Some f \<Rightarrow>
          if submissionType essay = Sub_image \<and> \<not> skipOcr
          then (let run = transcribeHandwriting (ocr_vendor env) f default_options in
                case outcome run of
                  Inr t \<Rightarrow>
                    ([Progress \<lparr>upd_step = Ps_ocr, upd_message = msg_ocr_running,
                                upd_ocrText = None\<rparr>,
                      Transcribe f run,
                      Progress \<lparr>upd_step = Ps_ocr_complete, upd_message = msg_ocr_done_prepare,
                                upd_ocrText = Some t\<rparr>], t)
                | Inl ocrError \<Rightarrow>
                    ([Progress \<lparr>upd_step = Ps_ocr, upd_message = msg_ocr_running,
                                upd_ocrText = None\<rparr>,
                      Transcribe f run,
                      Progress \<lparr>upd_step = Ps_ocr, upd_message = msg_ocr_failed_continue,
                                upd_ocrText = None\<rparr>], text0))
          else ([], text0))"

definition graded :: "agent_env \<Rightarrow> EssayData \<Rightarrow> string \<Rightarrow> model_reply \<Rightarrow> EssayData" where
  "graded env essay text reply =
     essay\<lparr>
       status := COMPLETED,
       studentName :=
         Some (str_or (or_str (r_studentName reply) (studentName essay)) ''Unknown Student''),
       date := Some (str_or (or_str (r_date reply) (date essay)) (today env)),
       ocrText := str_or (r_ocrText reply) (str_or (Some text) (str_or (rawText essay) [])),
       gradingResult := r_gradingResult reply,
       progressStep := Some Ps_done,
       progressMessage := Some msg_grading_done\<rparr>"

definition agent_try :: "agent_env \<Rightarrow> EssayData \<Rightarrow> AgentConfig \<Rightarrow> bool \<Rightarrow> agent_try_result" where
  "agent_try env essay config skipOcr =
     (if aborted_on_entry env
      then \<lparr>try_events = [], textForModel = str_or (rawText essay) (ocrText essay),
            try_result = Inl cancel_error\<rparr>
      else
        (let (ocr_events, text) = ocr_step env essay skipOcr;
             evs = ocr_events @
                   [Progress \<lparr>upd_step = Ps_grading,
                              upd_message =
                                (if skipOcr then msg_grading_retry else msg_grading_running),
                              upd_ocrText = None\<rparr>]
         in if aborted_before_grading env
            then \<lparr>try_events = evs, textForModel = text, try_result = Inl cancel_error\<rparr>
            else (case buildPromptBundle env essay config text of
                    Inl e \<Rightarrow> \<lparr>try_events = evs, textForModel = text, try_result = Inl e\<rparr>
                  | Inr promptBundle \<Rightarrow>
                      (let (requests, jsonText) =
                             routeModel (http env) (api_keys env) promptBundle config
                               (aborted_at_dispatch env);
                           evs2 = evs @ map Request requests
                       in case jsonText of
                            Inl e \<Rightarrow> \<lparr>try_events = evs2, textForModel = text, try_result = Inl e\<rparr>
                          | Inr txt \<Rightarrow>
                              (case parse_reply env txt of
                                 Inl e \<Rightarrow> \<lparr>try_events = evs2, textForModel = text, try_result = Inl e\<rparr>
                               | Inr None \<Rightarrow>
                                   \<lparr>try_events = evs2 @
                                      [Progress \<lparr>upd_step = Ps_done,
                                                 upd_message = msg_grading_done,
                                                 upd_ocrText = None\<rparr>],
                                    textForModel = text,
                                    try_result = Inl (JsError ''TypeError''
                                                   ''Cannot read properties of null'')\<rparr>
                               | Inr (Some reply) \<Rightarrow>
                                   \<lparr>try_events = evs2 @
                                      [Progress \<lparr>upd_step = Ps_done,
                                                 upd_message = msg_grading_done,
                                                 upd_ocrText = None\<rparr>],
                                    textForModel = text,
                                    try_result = Inr (graded env essay text reply)\<rparr>)))))"

definition agent_catch :: "EssayData \<Rightarrow> string \<Rightarrow> js_error \<Rightarrow> EssayData" where
  "agent_catch essay text error =
     (let cancelled = (includes_str (toLowerCase (err_message error)) ''cancelled''
                       \<or> err_name error = ''AbortError'')
      in essay\<lparr>
           status := (if cancelled then CANCELLED else ERROR),
           ocrText := str_or (Some text) (str_or (Some (ocrText essay)) (str_or (rawText essay) [])),
           progressStep := Some (if cancelled then Ps_cancelled else Ps_error),
           progressMessage :=
             (if cancelled then Some msg_user_cancelled else progressMessage essay),
           errorMessage :=
             Some (if cancelled then msg_user_cancelled
                   else str_or (Some (err_message error)) ''Processing failed'')\<rparr>)"

definition processEssayAgent ::
  "agent_env \<Rightarrow> EssayData \<Rightarrow> AgentConfig \<Rightarrow> bool \<Rightarrow> agent_event list \<times> EssayData" where
  "processEssayAgent env essay config skipOcr =
     (let t = agent_try env essay config skipOcr in
      (try_events t,
       (case try_result t of
          Inr r \<Rightarrow> r
        | Inl error \<Rightarrow> agent_catch essay (textForModel t) error)))"

text \<open>
  An exception that the abort signal raises: the error thrown by the explicit checks of the
  signal, or the AbortError with which an aborted \<open>fetch\<close> rejects. The transcript that a
  run obtains itself, if its OCR step ran and succeeded.
\<close>

definition raised_by_signal :: "js_error \<Rightarrow> bool" where
  "raised_by_signal e = (e = cancel_error \<or> err_name e = ''AbortError'')"

definition fresh_transcript :: "agent_env \<Rightarrow> EssayData \<Rightarrow> bool \<Rightarrow> string option" where
  "fresh_transcript env essay skipOcr =
     (case essay_file essay of
        None \<Rightarrow> None
      | Some f \<Rightarrow>
          if submissionType essay = Sub_image \<and> \<not> skipOcr \<and> \<not> aborted_on_entry env
          then (case outcome (transcribeHandwriting (ocr_vendor env) f default_options) of
                  Inr t \<Rightarrow> Some t
                | Inl e \<Rightarrow> None)
          else None)"

text \<open>Concrete inputs for the closed theorems.\<close>

definition an_essay :: "SubmissionType \<Rightarrow> File option \<Rightarrow> string option \<Rightarrow> string \<Rightarrow> EssayData" where
  "an_essay ty f raw txt =
     \<lparr>essay_id = ''e1'', submissionType = ty, essay_file = f, imagePreview = None,
      rawText = raw, ocrText = txt, status = ERROR, progressStep = Some Ps_error,
      progressMessage = Some ''failed'', studentName = None, date = None, topic = None,
      addedAt = None, batchId = None, ocrStatus = Some St_done,
      gradingStatus = Some St_error, sourceFileName = None, sourcePath = None,
      gradingResult = None, errorMessage = Some ''failed''\<rparr>"

definition a_reply :: model_reply where
  "a_reply = \<lparr>r_studentName = Some ''Tom'', r_date = None, r_ocrText = None,
              r_gradingResult = None\<rparr>"

definition a_world :: "bool \<Rightarrow> fetch \<Rightarrow> agent_env" where
  "a_world aborted network =
     \<lparr>ocr_vendor = vendor (\<lambda>k. processed_response [''Dear Tom'']) (\<lambda>k. 0),
      aborted_on_entry = aborted,
      aborted_before_grading = aborted,
      aborted_at_dispatch = aborted,
      fileToBase64 = (\<lambda>f. Inr \<lparr>base64 = ''AAAA'', mimeType = ''image/jpeg''\<rparr>),
      api_keys = keys_without_openai\<lparr>OPENAI_API_KEY := Some ''sk-key''\<rparr>,
      http = network,
      parse_reply = (\<lambda>txt. Inr (Some a_reply)),
      today = ''2025/1/2'',
      render_system = (\<lambda>config. ''You are an expert English Teacher''),
      render_user = (\<lambda>config essay txt. ''Essay Text: '' @ str_or txt [])\<rparr>"

definition aborted_fetch :: fetch where
  "aborted_fetch request = Inl (JsError ''AbortError'' ''The user aborted a request.'')"

section \<open>Orchestrator: retry of one essay (App.tsx)\<close>

text \<open>
  The handlers act on React state through effects; a handler is modelled by the list of
  its effects in order. An update of an essay carries the fields the handler sets.
\<close>

record essay_patch =
  set_status :: "ProcessingStatus option"
  set_gradingStatus :: "StepStatus option"
  set_progressStep :: "ProcessingStep option"
  set_progressMessage :: "string option"
  set_ocrText :: "string option"

datatype app_event =
  SetIsProcessing bool
| SetActiveTab string
| RegisterController string
| CleanupController string
| UpdateEssay string essay_patch
| MergeEssay string EssayData
| Agent agent_event

definition provider_name :: "AIProvider \<Rightarrow> string" where
  "provider_name p =
     (case p of
        Openai \<Rightarrow> ''openai''
      | Openrouter \<Rightarrow> ''openrouter''
      | Gemini \<Rightarrow> ''gemini''
      | Deepseek \<Rightarrow> ''deepseek''
      | Other_provider s \<Rightarrow> s)"

text \<open>
  The progress callback that \<open>runGradingStep\<close> hands to the agent turns every progress
  update into an update of the essay, with the grading sub-status added.
\<close>

definition on_progress :: "string \<Rightarrow> agent_event \<Rightarrow> app_event list" where
  "on_progress essayId ev =
     (case ev of
        Progress u \<Rightarrow>
          [Agent ev,
           UpdateEssay essayId
             \<lparr>set_status = None,
              set_gradingStatus = Some (if upd_step u = Ps_done then St_done else St_processing),
              set_progressStep = Some (upd_step u),
              set_progressMessage = Some (upd_message u),
              set_ocrText = upd_ocrText u\<rparr>]
      | Transcribe f run \<Rightarrow> [Agent ev]
      | Request r \<Rightarrow> [Agent ev])"

text \<open>
  \<open>processEssayAgent\<close> catches every exception and resolves to a record, so the
  \<open>catch\<close> branch of \<open>runGradingStep\<close> is never entered and has no counterpart here.
\<close>

definition runGradingStep :: "agent_env \<Rightarrow> AgentConfig \<Rightarrow> EssayData \<Rightarrow> app_event list" where
  "runGradingStep env config essay =
     (let (agent_events, r) =
            processEssayAgent env
              (essay\<lparr>ocrText := str_or (Some (ocrText essay)) (str_or (rawText essay) [])\<rparr>)
              config True;
          updated =
            r\<lparr>status := COMPLETED,
              gradingStatus := Some St_done,
              ocrStatus := (if ocrText r \<noteq> [] then Some (or_else (ocrStatus essay) St_done)
                            else ocrStatus essay),
              progressStep := Some Ps_done,
              progressMessage := Some msg_grading_done\<rparr>
      in [RegisterController (essay_id essay),
          UpdateEssay (essay_id essay)
            \<lparr>set_status = Some PROCESSING,
             set_gradingStatus = Some St_processing,
             set_progressStep = Some Ps_grading,
             set_progressMessage =
               Some (msg_grading_with_open @ provider_name (provider (cfg_model config)) @ '':''
                     @ model (cfg_model config) @ msg_grading_with_close),
             set_ocrText = None\<rparr>]
         @ concat (map (on_progress (essay_id essay)) agent_events)
         @ [MergeEssay (essay_id essay) updated,
            CleanupController (essay_id essay)])"

definition handleRetry ::
  "agent_env \<Rightarrow> AgentConfig \<Rightarrow> EssayData list \<Rightarrow> string \<Rightarrow> app_event list" where
  "handleRetry env config all_essays essayId =
     (case find (\<lambda>e. essay_id e = essayId) all_essays of
        None \<Rightarrow> []
      | Some target \<Rightarrow>
          [SetIsProcessing True, SetActiveTab ''list'']
          @ runGradingStep env config target
          @ [SetIsProcessing False])"

text \<open>What a list of effects says about OCR and about the steps it enters.\<close>

fun is_transcribe :: "app_event \<Rightarrow> bool" where
  "is_transcribe (Agent (Transcribe f run)) = True"
| "is_transcribe ev = False"

fun entered_steps :: "app_event list \<Rightarrow> ProcessingStep list" where
  "entered_steps [] = []"
| "entered_steps (Agent (Progress u) # evs) = upd_step u # entered_steps evs"
| "entered_steps (UpdateEssay i p # evs) =
     (case set_progressStep p of None \<Rightarrow> [] | Some s \<Rightarrow> [s]) @ entered_steps evs"
| "entered_steps (ev # evs) = entered_steps evs"

text \<open>An effect of the agent that belongs to the grading step.\<close>

fun grading_only :: "agent_event \<Rightarrow> bool" where
  "grading_only (Progress u) = (upd_step u = Ps_grading \<or> upd_step u = Ps_done)"
| "grading_only (Transcribe f run) = False"
| "grading_only (Request r) = True"


text \<open>
  The effects of the agent among a handler's effects, the requests among the agent's
  effects, the record that \<open>runGradingStep\<close> hands to the agent, and the prompt that
  \<open>buildPromptBundle\<close> makes of a text.
\<close>

fun agent_events :: "app_event list \<Rightarrow> agent_event list" where
  "agent_events [] = []"
| "agent_events (Agent ev # evs) = ev # agent_events evs"
| "agent_events (ev # evs) = agent_events evs"

fun requests_of :: "agent_event list \<Rightarrow> http_request list" where
  "requests_of [] = []"
| "requests_of (Request r # evs) = r # requests_of evs"
| "requests_of (ev # evs) = requests_of evs"

definition retry_input :: "EssayData \<Rightarrow> EssayData" where
  "retry_input essay =
     essay\<lparr>ocrText := str_or (Some (ocrText essay)) (str_or (rawText essay) [])\<rparr>"

definition text_bundle :: "agent_env \<Rightarrow> AgentConfig \<Rightarrow> EssayData \<Rightarrow> string \<Rightarrow> PromptBundle" where
  "text_bundle env config essay txt =
     \<lparr>systemPrompt = render_system env config,
      userPrompt = render_user env config essay (Some (trim txt)),
      image = None\<rparr>"
section \<open>Properties of the persistence layer\<close>

lemma revive_all_Some: "revive_all (map Some es) fb = Inr (map (\<lambda>e. reviveEssay e fb) es)"
  by (induction es) simp_all

lemma revive_all_null:
  "None \<in> set es \<Longrightarrow>
     revive_all es fb = Inl (JsError ''TypeError'' ''Cannot read properties of null'')"
  by (induction es fb rule: revive_all.induct) auto

lemma loadPersistedEssays_array:
  assumes "holds_essays env payload es"
  shows "loadPersistedEssays env =
           map (\<lambda>e. reviveEssay e (Some (str_or (savedAt payload) (now_iso env)))) es"
proof -
  from assms obtain raw where w: "has_window env" and g: "getItem env = Inr (Some raw)"
    and r: "raw \<noteq> []" and p: "JSON_parse env raw = Inr (Parsed payload)"
    and a: "essays payload = Essays_array (map Some es)"
    by (auto simp: holds_essays_def split: sum.splits option.splits)
  show ?thesis
    using w g r p a
    by (simp add: loadPersistedEssays_def load_try_def truthy_def str_or_def revive_all_Some)
qed

lemma withDefaults_lacks:
  "(ocrText (withDefaults e fb) = [] \<and> \<not> truthy (rawText (withDefaults e fb)) \<and>
     submissionType (withDefaults e fb) = Sub_image) = lacks_source e"
  by (auto simp: withDefaults_def lacks_source_def truthy_def str_or_def split: option.splits)

lemma reset_keeps_source:
  "ocrText (resetIfInterrupted x) = ocrText x \<and> rawText (resetIfInterrupted x) = rawText x \<and>
   submissionType (resetIfInterrupted x) = submissionType x"
  by (simp add: resetIfInterrupted_def)

lemma reviveEssay_not_lacking:
  "\<not> lacks_source e \<Longrightarrow> reviveEssay e fb = resetIfInterrupted (withDefaults e fb)"
  using withDefaults_lacks [of e fb] reset_keeps_source [of "withDefaults e fb"]
  by (auto simp: reviveEssay_def markMissingSource_def Let_def)

lemma reviveEssay_lacking:
  "lacks_source e \<Longrightarrow>
     reviveEssay e fb = (resetIfInterrupted (withDefaults e fb))\<lparr>
        status := ERROR,
        ocrStatus := Some St_error,
        gradingStatus := Some St_skipped,
        progressStep := Some Ps_error,
        progressMessage := Some msg_source_unavailable,
        errorMessage := or_str (p_errorMessage e) (Some msg_source_unavailable)\<rparr>"
  using withDefaults_lacks [of e fb] reset_keeps_source [of "withDefaults e fb"]
  by (auto simp: reviveEssay_def markMissingSource_def Let_def resetIfInterrupted_def withDefaults_def)

text \<open>
  Claim C8, as the specification states it, fails: an image essay stored as PROCESSING
  that has neither OCR text nor raw text (interrupted during its OCR step) is first reset
  by \<open>resetIfInterrupted\<close> and then marked by \<open>markMissingSource\<close>, so it loads as ERROR.
\<close>

theorem interrupted_image_without_text_counterexample:
  "map status (loadPersistedEssays (stored_blob [Some (stored_essay Sub_image None PROCESSING)]))
     = [ERROR]"
  by (simp add: loadPersistedEssays_def load_try_def stored_blob_def stored_essay_def truthy_def
      str_or_def or_else_def or_str_def reviveEssay_def withDefaults_def resetIfInterrupted_def
      markMissingSource_def)

text \<open>
  Claim C8 (amended): every stored essay whose status is PROCESSING, other than an image
  essay lacking both OCR text and raw text, loads with status PENDING, with each
  sub-status that was "processing" (or absent) set to "idle" and every other sub-status
  unchanged, at progress step "queued" with the explanatory progress message.
\<close>

theorem interrupted_essay_reset_on_load:
  assumes "holds_essays env payload es" and "i < length es"
    and "p_status (es ! i) = Some PROCESSING" and "\<not> lacks_source (es ! i)"
  shows "length (loadPersistedEssays env) = length es \<and>
         essay_id (loadPersistedEssays env ! i) = p_id (es ! i) \<and>
         status (loadPersistedEssays env ! i) = PENDING \<and>
         ocrStatus (loadPersistedEssays env ! i) =
           Some (if p_ocrStatus (es ! i) = Some St_processing then St_idle
                 else or_else (p_ocrStatus (es ! i)) St_idle) \<and>
         gradingStatus (loadPersistedEssays env ! i) =
           Some (if p_gradingStatus (es ! i) = Some St_processing then St_idle
                 else or_else (p_gradingStatus (es ! i)) St_idle) \<and>
         progressStep (loadPersistedEssays env ! i) = Some Ps_queued \<and>
         progressMessage (loadPersistedEssays env ! i) = Some msg_resume_after_refresh"
proof -
  let ?fb = "Some (str_or (savedAt payload) (now_iso env))"
  have l: "loadPersistedEssays env = map (\<lambda>e. reviveEssay e ?fb) es"
    using assms(1) by (rule loadPersistedEssays_array)
  have r: "loadPersistedEssays env ! i = resetIfInterrupted (withDefaults (es ! i) ?fb)"
    using l assms(2) assms(4) by (simp add: reviveEssay_not_lacking)
  show ?thesis
    unfolding r using l assms(3)
    by (auto simp: resetIfInterrupted_def withDefaults_def or_else_def split: option.splits)
qed

theorem interrupted_essay_reset_on_load_witness:
  "status (loadPersistedEssays
             (stored_blob [Some (stored_essay Sub_image (Some ''Dear Tom'') PROCESSING)]) ! 0)
     = PENDING \<and>
   ocrStatus (loadPersistedEssays
             (stored_blob [Some (stored_essay Sub_image (Some ''Dear Tom'') PROCESSING)]) ! 0)
     = Some St_idle \<and>
   progressMessage (loadPersistedEssays
             (stored_blob [Some (stored_essay Sub_image (Some ''Dear Tom'') PROCESSING)]) ! 0)
     = Some msg_resume_after_refresh"
  using interrupted_essay_reset_on_load [of
      "stored_blob [Some (stored_essay Sub_image (Some ''Dear Tom'') PROCESSING)]"
      "\<lparr>savedAt = Some ''2025-01-01T00:00:00.000Z'',
        essays = Essays_array [Some (stored_essay Sub_image (Some ''Dear Tom'') PROCESSING)]\<rparr>"
      "[stored_essay Sub_image (Some ''Dear Tom'') PROCESSING]" 0]
  by (simp add: holds_essays_def stored_blob_def stored_essay_def lacks_source_def truthy_def)

text \<open>
  Claim C9: every stored image essay that lacks both OCR text and raw text loads in the
  ERROR status, at progress step "error", with the progress message asking for a
  re-upload (the error message is the stored one when there is one, else the same
  re-upload message); every other stored essay is left as \<open>resetIfInterrupted\<close> made it,
  that is, not so marked.
\<close>

theorem missing_source_marked_on_load:
  assumes "holds_essays env payload es" and "i < length es"
  shows "if lacks_source (es ! i)
         then status (loadPersistedEssays env ! i) = ERROR \<and>
              progressStep (loadPersistedEssays env ! i) = Some Ps_error \<and>
              progressMessage (loadPersistedEssays env ! i) = Some msg_source_unavailable \<and>
              errorMessage (loadPersistedEssays env ! i) =
                Some (str_or (p_errorMessage (es ! i)) msg_source_unavailable) \<and>
              ocrStatus (loadPersistedEssays env ! i) = Some St_error \<and>
              gradingStatus (loadPersistedEssays env ! i) = Some St_skipped
         else loadPersistedEssays env ! i =
                resetIfInterrupted
                  (withDefaults (es ! i) (Some (str_or (savedAt payload) (now_iso env))))"
proof -
  let ?fb = "Some (str_or (savedAt payload) (now_iso env))"
  have l: "loadPersistedEssays env ! i = reviveEssay (es ! i) ?fb"
    using loadPersistedEssays_array [OF assms(1)] assms(2) by simp
  show ?thesis
  proof (cases "lacks_source (es ! i)")
    case True
    then show ?thesis
      unfolding l
      by (simp add: reviveEssay_lacking or_str_def str_or_def truthy_def split: option.splits)
  next
    case False
    then show ?thesis unfolding l by (simp add: reviveEssay_not_lacking)
  qed
qed

theorem missing_source_marked_on_load_witness:
  "status (loadPersistedEssays (stored_blob [Some (stored_essay Sub_image None PENDING)]) ! 0)
     = ERROR \<and>
   progressMessage
     (loadPersistedEssays (stored_blob [Some (stored_essay Sub_image None PENDING)]) ! 0)
     = Some msg_source_unavailable"
  using missing_source_marked_on_load [of
      "stored_blob [Some (stored_essay Sub_image None PENDING)]"
      "\<lparr>savedAt = Some ''2025-01-01T00:00:00.000Z'',
        essays = Essays_array [Some (stored_essay Sub_image None PENDING)]\<rparr>"
      "[stored_essay Sub_image None PENDING]" 0]
  by (simp add: holds_essays_def stored_blob_def stored_essay_def lacks_source_def truthy_def)

text \<open>
  Claim C10: \<open>loadPersistedEssays\<close> is total at its interface. Outside a browser, when
  reading the storage raises, when there is no entry under the key, when the entry is
  malformed JSON, when the parsed value is null, when its essays field is missing or is
  not an array, and when the array holds a null element, it returns the empty list; no
  exception reaches the caller (the result type has no error branch: the \<open>catch\<close> of the
  source maps every exception of \<open>load_try\<close> to the empty list).
\<close>

theorem loadPersistedEssays_total:
  assumes "\<not> has_window env
         \<or> (\<exists>e. getItem env = Inl e)
         \<or> getItem env = Inr None
         \<or> (\<exists>raw e. getItem env = Inr (Some raw) \<and> JSON_parse env raw = Inl e)
         \<or> (\<exists>raw. getItem env = Inr (Some raw) \<and> JSON_parse env raw = Inr Parsed_null)
         \<or> (\<exists>raw p. getItem env = Inr (Some raw) \<and> JSON_parse env raw = Inr (Parsed p) \<and>
               (essays p = Essays_absent \<or> essays p = Essays_not_array))
         \<or> (\<exists>raw p es. getItem env = Inr (Some raw) \<and> JSON_parse env raw = Inr (Parsed p) \<and>
               essays p = Essays_array es \<and> None \<in> set es)"
  shows "loadPersistedEssays env = []"
proof (cases "has_window env")
  case False
  then show ?thesis by (simp add: loadPersistedEssays_def)
next
  case True
  have "load_try env = Inr [] \<or> (\<exists>e. load_try env = Inl e)"
    using assms True revive_all_null
    by (auto simp: load_try_def truthy_def str_or_def split: sum.splits option.splits)
  then show ?thesis by (auto simp: loadPersistedEssays_def)
qed

theorem loadPersistedEssays_total_witness:
  "loadPersistedEssays
     \<lparr>has_window = True, getItem = Inr (Some ''{not json''),
      JSON_parse = (\<lambda>raw. Inl (JsError ''SyntaxError'' ''Unexpected token'')),
      now_iso = ''2025-01-02T00:00:00.000Z''\<rparr> = []"
  using loadPersistedEssays_total [of
     "\<lparr>has_window = True, getItem = Inr (Some ''{not json''),
      JSON_parse = (\<lambda>raw. Inl (JsError ''SyntaxError'' ''Unexpected token'')),
      now_iso = ''2025-01-02T00:00:00.000Z''\<rparr>"]
  by simp

section \<open>Properties of the OCR client\<close>

lemma outcome_logged [simp]: "outcome (logged it r) = outcome r"
  by (simp add: logged_def)

lemma polls_logged [simp]: "polls (logged it r) = Suc (polls r)"
  by (simp add: logged_def)

lemma iterations_logged [simp]: "iterations (logged it r) = it # iterations r"
  by (simp add: logged_def)

lemma pollLoop_stop:
  "\<not> within_caps env ma mw a \<Longrightarrow> pollLoop env doc pi ma mw a d = finalCheck env doc a"
  by (subst pollLoop.simps) (auto simp: within_caps_def)

lemma pollLoop_pending:
  assumes "within_caps env ma mw a" and "still_pending env doc a"
  shows "\<exists>it d'. pollLoop env doc pi ma mw a d = logged it (pollLoop env doc pi ma mw (Suc a) d')"
  using assms
  by (subst pollLoop.simps)
     (auto simp: within_caps_def still_pending_def Let_def split: sum.splits)

lemma pollLoop_skip:
  assumes "a \<le> n" and "\<forall>k. a \<le> k \<and> k < n \<longrightarrow> within_caps env ma mw k \<and> still_pending env doc k"
  shows "\<exists>d'. outcome (pollLoop env doc pi ma mw a d) = outcome (pollLoop env doc pi ma mw n d') \<and>
              polls (pollLoop env doc pi ma mw a d) = (n - a) + polls (pollLoop env doc pi ma mw n d')"
  using assms
proof (induction "n - a" arbitrary: a d)
  case 0
  then have "a = n" by simp
  then show ?case by auto
next
  case (Suc m)
  then have lt: "a < n" by simp
  with Suc.prems have c: "within_caps env ma mw a" and p: "still_pending env doc a" by auto
  from pollLoop_pending [OF c p, of pi d] obtain it d1 where
    e: "pollLoop env doc pi ma mw a d = logged it (pollLoop env doc pi ma mw (Suc a) d1)" by blast
  have m: "m = n - Suc a" using Suc.hyps(2) by simp
  have r: "\<forall>k. Suc a \<le> k \<and> k < n \<longrightarrow> within_caps env ma mw k \<and> still_pending env doc k"
    using Suc.prems(2) by auto
  from Suc.hyps(1) [OF m _ r, of d1] lt obtain d2 where
    i: "outcome (pollLoop env doc pi ma mw (Suc a) d1) = outcome (pollLoop env doc pi ma mw n d2)"
       "polls (pollLoop env doc pi ma mw (Suc a) d1) = (n - Suc a) + polls (pollLoop env doc pi ma mw n d2)"
    by auto
  show ?case using e i lt by (intro exI [of _ d2]) auto
qed

lemma pollLoop_polls_le: "polls (pollLoop env doc pi ma mw a d) \<le> Suc (ma - a)"
proof (induction env doc pi ma mw a d rule: pollLoop.induct)
  case (1 env doc pi ma mw a d)
  show ?case
  proof (cases "a < ma \<and> elapsed_ms env a < mw")
    case False
    then show ?thesis
      by (subst pollLoop.simps)
         (auto simp: finalCheck_def request_sent_def Let_def split: sum.splits)
  next
    case True
    show ?thesis
    proof (cases "fetchDocumentStatus env doc a")
      case (Inl e)
      with True show ?thesis
        by (subst pollLoop.simps) (simp add: request_sent_def)
    next
      case (Inr result)
      show ?thesis
      proof (cases "dr_status result = Some ''processed'' \<or> dr_status result = Some ''failed''
                    \<or> delay_aborted env a")
        case True
        with \<open>a < ma \<and> elapsed_ms env a < mw\<close> Inr show ?thesis
          by (subst pollLoop.simps) (auto simp: Let_def)
      next
        case False
        with \<open>a < ma \<and> elapsed_ms env a < mw\<close> Inr
        have "polls (pollLoop env doc pi ma mw (Suc a) (nextDelay pi d result)) \<le> Suc (ma - Suc a)"
          using "1.IH" [of result] by (auto simp: Let_def)
        with False \<open>a < ma \<and> elapsed_ms env a < mw\<close> Inr show ?thesis
          by (subst pollLoop.simps) (auto simp: Let_def)
      qed
    qed
  qed
qed

lemma pollLoop_chained: "chained env doc pi d (iterations (pollLoop env doc pi ma mw a d))"
proof (induction env doc pi ma mw a d rule: pollLoop.induct)
  case (1 env doc pi ma mw a d)
  show ?case
  proof (cases "a < ma \<and> elapsed_ms env a < mw")
    case False
    then show ?thesis
      by (subst pollLoop.simps)
         (auto simp: finalCheck_def Let_def split: sum.splits)
  next
    case True
    show ?thesis
    proof (cases "fetchDocumentStatus env doc a")
      case (Inl e)
      with True show ?thesis
        by (subst pollLoop.simps) simp
    next
      case (Inr result)
      show ?thesis
      proof (cases "dr_status result = Some ''processed'' \<or> dr_status result = Some ''failed''")
        case True
        with \<open>a < ma \<and> elapsed_ms env a < mw\<close> Inr show ?thesis
          by (subst pollLoop.simps) (auto simp: Let_def)
      next
        case nt: False
        show ?thesis
        proof (cases "delay_aborted env a")
          case True
          with nt \<open>a < ma \<and> elapsed_ms env a < mw\<close> Inr show ?thesis
            by (subst pollLoop.simps) (auto simp: Let_def)
        next
          case False
          with nt \<open>a < ma \<and> elapsed_ms env a < mw\<close> Inr
          have "chained env doc pi (nextDelay pi d result)
                  (iterations (pollLoop env doc pi ma mw (Suc a) (nextDelay pi d result)))"
            using "1.IH" [of result] by (auto simp: Let_def)
          with False nt \<open>a < ma \<and> elapsed_ms env a < mw\<close> Inr show ?thesis
            by (subst pollLoop.simps) (auto simp: Let_def)
        qed
      qed
    qed
  qed
qed


lemma starts_with_append: "starts_with (n @ post) n"
  by (induction n) simp_all

lemma includes_str_here: "includes_str (n @ post) n"
proof (cases "n @ post")
  case Nil
  then show ?thesis by simp
next
  case (Cons c cs)
  have "starts_with (n @ post) n" by (rule starts_with_append)
  with Cons show ?thesis by simp
qed

lemma includes_str_append: "includes_str (pre @ n @ post) n"
proof (induction pre)
  case Nil
  show ?case using includes_str_here by simp
next
  case (Cons c pre)
  then show ?case by simp
qed

lemma timeout_error_names_document:
  "includes_str (err_message (timeout_error documentId)) documentId"
  using includes_str_append
    [of "''OCR request timed out before completion (document id: ''" documentId
        "'').'' @ msg_retry_later"]
  by (simp add: timeout_error_def Error_def)

lemma ws_len_Nil: "ws_len ws [] = 0"
proof (cases "find (starts_with []) ws")
  case None
  then show ?thesis by (simp add: ws_len_def)
next
  case (Some w)
  then have "starts_with [] w" by (auto simp: find_Some_iff)
  then have "w = []" by (cases w) simp_all
  with Some show ?thesis by (simp add: ws_len_def)
qed

lemma strip_Nil: "strip ws [] = []"
  by (subst strip.simps) (simp add: ws_len_Nil)

lemma trim_Nil: "trim [] = []"
  by (simp add: trim_def strip_Nil)

lemma strip_clean: "ws_len ws (strip ws s) = 0"
proof (induction ws s rule: strip.induct)
  case (1 ws s)
  show ?case
  proof (cases "ws_len ws s = 0")
    case True
    then show ?thesis by (subst strip.simps) simp
  next
    case False
    with 1 show ?thesis by (subst strip.simps) simp
  qed
qed

lemma strip_drop: "\<exists>n. strip ws s = drop n s"
proof (induction ws s rule: strip.induct)
  case (1 ws s)
  show ?case
  proof (cases "ws_len ws s = 0")
    case True
    then have "strip ws s = drop 0 s" by (subst strip.simps) simp
    then show ?thesis by blast
  next
    case False
    with 1 obtain n where "strip ws (drop (ws_len ws s) s) = drop n (drop (ws_len ws s) s)"
      by blast
    with False have "strip ws s = drop (n + ws_len ws s) s"
      by (subst strip.simps) simp
    then show ?thesis by blast
  qed
qed

lemma starts_with_take: "starts_with (take k u) w \<Longrightarrow> starts_with u w"
proof (induction u w arbitrary: k rule: starts_with.induct)
  case (1 s)
  then show ?case by simp
next
  case (2 n ns)
  then show ?case by simp
next
  case (3 c cs n ns)
  then show ?case by (cases k) auto
qed

lemma ws_len_zero:
  assumes "[] \<notin> set ws"
  shows "ws_len ws s = 0 \<longleftrightarrow> (\<forall>w\<in>set ws. \<not> starts_with s w)"
proof
  assume z: "ws_len ws s = 0"
  show "\<forall>w\<in>set ws. \<not> starts_with s w"
  proof (cases "find (starts_with s) ws")
    case None
    then show ?thesis by (simp add: find_None_iff)
  next
    case (Some w)
    then have "w \<in> set ws" by (auto simp: find_Some_iff in_set_conv_nth)
    with assms have "w \<noteq> []" by auto
    with Some z show ?thesis by (simp add: ws_len_def)
  qed
next
  assume "\<forall>w\<in>set ws. \<not> starts_with s w"
  then have "find (starts_with s) ws = None" by (simp add: find_None_iff)
  then show "ws_len ws s = 0" by (simp add: ws_len_def)
qed

lemma white_space_nonempty: "[] \<notin> set white_space" "[] \<notin> set (map rev white_space)"
  by (simp_all add: white_space_def)

lemma trim_clean:
  "ws_len white_space (trim s) = 0 \<and> ws_len (map rev white_space) (rev (trim s)) = 0"
proof -
  let ?u = "strip white_space s"
  let ?v = "strip (map rev white_space) (rev ?u)"
  have e: "ws_len (map rev white_space) (rev (trim s)) = 0"
    by (simp add: trim_def strip_clean)
  obtain n where "?v = drop n (rev ?u)" using strip_drop by blast
  then have t: "trim s = take (length ?u - n) ?u"
    by (simp add: trim_def rev_drop)
  have "\<forall>w\<in>set white_space. \<not> starts_with ?u w"
    using ws_len_zero [OF white_space_nonempty(1), of ?u] strip_clean [of white_space s]
    by simp
  then have "\<forall>w\<in>set white_space. \<not> starts_with (trim s) w"
    unfolding t using starts_with_take by blast
  then have "ws_len white_space (trim s) = 0"
    using ws_len_zero [OF white_space_nonempty(1), of "trim s"] by simp
  with e show ?thesis by blast
qed

lemma transcribe_run:
  assumes "\<not> aborted_at_start env" and "uploadDocument env f = Inr doc"
  shows "transcribeHandwriting env f options =
           pollLoop env doc (or_else (opt_pollIntervalMs options) 2000)
             (or_else (opt_maxAttempts options) 120)
             (or_else (opt_maxWaitMs options) 240000) 0
             (or_else (opt_pollIntervalMs options) 2000)"
  using assms by (simp add: transcribeHandwriting_def Let_def)

lemma transcribe_chained:
  "\<exists>doc. chained env doc (or_else (opt_pollIntervalMs options) 2000)
            (or_else (opt_pollIntervalMs options) 2000)
            (iterations (transcribeHandwriting env f options)) \<and>
         (iterations (transcribeHandwriting env f options) \<noteq> [] \<longrightarrow>
            uploadDocument env f = Inr doc)"
proof (cases "\<not> aborted_at_start env \<and> (\<exists>doc. uploadDocument env f = Inr doc)")
  case True
  then obtain doc where d: "uploadDocument env f = Inr doc" and a: "\<not> aborted_at_start env"
    by blast
  show ?thesis
    using pollLoop_chained [of env doc] d
    by (intro exI [of _ doc]) (simp add: transcribe_run [OF a d])
next
  case False
  then have "iterations (transcribeHandwriting env f options) = []"
    by (auto simp: transcribeHandwriting_def Let_def split: sum.splits)
  then show ?thesis by simp
qed

lemma chained_member:
  "chained env doc pi d its \<Longrightarrow> it \<in> set its \<Longrightarrow>
     fetchDocumentStatus env doc (it_attempt it) = Inr (it_result it) \<and>
     it_wait it = waitMs pi (it_delay it) (it_result it) \<and>
     it_next_delay it = nextDelay pi (it_delay it) (it_result it)"
  by (induction its arbitrary: d) auto

lemma chained_link:
  "chained env doc pi d its \<Longrightarrow> Suc i < length its \<Longrightarrow>
     it_delay (its ! Suc i) = it_next_delay (its ! i)"
proof (induction its arbitrary: d i)
  case Nil
  then show ?case by simp
next
  case (Cons it its)
  show ?case
  proof (cases i)
    case 0
    with Cons.prems show ?thesis by (cases its) auto
  next
    case (Suc j)
    with Cons.prems Cons.IH [of "it_next_delay it" j] show ?thesis by auto
  qed
qed

lemma chained_head: "chained env doc pi d its \<Longrightarrow> its \<noteq> [] \<Longrightarrow> it_delay (hd its) = d"
  by (cases its) auto

lemma nextDelay_grows:
  assumes "httpStatus r \<noteq> 429" and "d \<le> 20000" and "0 \<le> pi"
  shows "d \<le> nextDelay pi d r \<and> nextDelay pi d r \<le> 20000"
  using assms by (auto simp: nextDelay_def waitMs_def)

lemma chained_sorted:
  assumes "chained env doc pi d its" and "0 \<le> pi" and "d \<le> 20000"
    and "\<forall>it\<in>set its. httpStatus (it_result it) \<noteq> 429"
  shows "sorted (map it_delay its) \<and> (\<forall>it\<in>set its. d \<le> it_delay it \<and> it_delay it \<le> 20000)"
  using assms
proof (induction its arbitrary: d)
  case Nil
  then show ?case by simp
next
  case (Cons it its)
  then have h: "it_delay it = d" and n: "it_next_delay it = nextDelay pi d (it_result it)"
    and c: "chained env doc pi (it_next_delay it) its" by auto
  have g: "d \<le> it_next_delay it \<and> it_next_delay it \<le> 20000"
    using nextDelay_grows [of "it_result it" d pi] Cons.prems n by auto
  have ih: "sorted (map it_delay its) \<and>
            (\<forall>x\<in>set its. it_next_delay it \<le> it_delay x \<and> it_delay x \<le> 20000)"
    using Cons.IH [OF c Cons.prems(2)] g Cons.prems(4) by auto
  show ?case using h g ih Cons.prems(3) by auto
qed

text \<open>
  Claim C3, as the specification states it, fails: when a bound is exceeded the client
  sends one more status request and returns the transcript if that request reports
  "processed". Here the only request within the 4-minute cap reports "processing", the cap
  is exceeded at the next loop test, and the call still returns the transcript. When that
  last request is rejected instead, the call fails with the rejection, not with the
  timeout error. A run whose requests all report "processing" sends 121 of them.
\<close>

theorem grace_poll_counterexample:
  "still_pending
     (vendor (\<lambda>k. if k = 0 then processing_response else processed_response [''Hello''])
             (\<lambda>k. if k = 0 then 1500 else 241000)) ''doc-1'' 0 \<and>
   \<not> within_caps
     (vendor (\<lambda>k. if k = 0 then processing_response else processed_response [''Hello''])
             (\<lambda>k. if k = 0 then 1500 else 241000)) 120 240000 1 \<and>
   outcome (transcribeHandwriting
     (vendor (\<lambda>k. if k = 0 then processing_response else processed_response [''Hello''])
             (\<lambda>k. if k = 0 then 1500 else 241000))
     (File ''essay.jpg'') default_options) = Inr ''Hello'' \<and>
   outcome (transcribeHandwriting
     ((vendor (\<lambda>k. processing_response) (\<lambda>k. if k = 0 then 1500 else 241000))
        \<lparr>status_fetch := (\<lambda>documentId k.
            if k = 0 then Inr processing_response
            else Inl (JsError ''TypeError'' ''Failed to fetch''))\<rparr>)
     (File ''essay.jpg'') default_options) = Inl (JsError ''TypeError'' ''Failed to fetch'') \<and>
   polls (transcribeHandwriting (vendor (\<lambda>k. processing_response) (\<lambda>k. 0))
     (File ''essay.jpg'') default_options) = 121"
  by code_simp

text \<open>
  Claim C3 (amended): the loop polls while fewer than \<open>maxAttempts\<close> (default 120)
  iterations have run and less than \<open>maxWaitMs\<close> (default 4 minutes) have elapsed; at
  most \<open>maxAttempts + 1\<close> status requests are sent. In every run in which a bound is
  exceeded after n iterations that were all still pending, one final status request is
  made: if it raises, the call fails with that error; if it reports "processed" with a
  non-empty transcript, the transcript is returned; otherwise the call fails with the
  timeout error, whose message contains the vendor document id.
\<close>

theorem polling_bounded_then_timeout:
  assumes "\<not> aborted_at_start env" and "uploadDocument env f = Inr doc"
    and "maxAttempts = or_else (opt_maxAttempts options) 120"
    and "maxWaitMs = or_else (opt_maxWaitMs options) 240000"
    and "\<forall>k<n. within_caps env maxAttempts maxWaitMs k \<and> still_pending env doc k"
    and "\<not> within_caps env maxAttempts maxWaitMs n"
  shows "n \<le> maxAttempts \<and>
         polls (transcribeHandwriting env f options) \<le> maxAttempts + 1 \<and>
         outcome (transcribeHandwriting env f options) =
           (case fetchDocumentStatus env doc n of
              Inl e \<Rightarrow> Inl e
            | Inr finalResult \<Rightarrow>
                if dr_status finalResult = Some ''processed'' \<and>
                   collectTranscript (dr_results finalResult) \<noteq> []
                then Inr (collectTranscript (dr_results finalResult))
                else Inl (timeout_error doc)) \<and>
         includes_str (err_message (timeout_error doc)) doc"
proof -
  let ?pi = "or_else (opt_pollIntervalMs options) 2000"
  have run: "transcribeHandwriting env f options = pollLoop env doc ?pi maxAttempts maxWaitMs 0 ?pi"
    using transcribe_run [OF assms(1) assms(2)] assms(3) assms(4) by simp
  have n: "n \<le> maxAttempts"
  proof (rule ccontr)
    assume "\<not> n \<le> maxAttempts"
    then have "maxAttempts < n" by simp
    with assms(5) have "within_caps env maxAttempts maxWaitMs maxAttempts" by blast
    then show False by (simp add: within_caps_def)
  qed
  have p: "polls (transcribeHandwriting env f options) \<le> maxAttempts + 1"
    using pollLoop_polls_le [of env doc ?pi maxAttempts maxWaitMs 0 ?pi] run by simp
  from pollLoop_skip [of 0 n env maxAttempts maxWaitMs doc ?pi ?pi] assms(5)
  obtain d' where
    "outcome (pollLoop env doc ?pi maxAttempts maxWaitMs 0 ?pi) =
       outcome (pollLoop env doc ?pi maxAttempts maxWaitMs n d')"
    by auto
  then have "outcome (transcribeHandwriting env f options) = outcome (finalCheck env doc n)"
    using run pollLoop_stop [OF assms(6)] by simp
  then have o: "outcome (transcribeHandwriting env f options) =
           (case fetchDocumentStatus env doc n of
              Inl e \<Rightarrow> Inl e
            | Inr finalResult \<Rightarrow>
                if dr_status finalResult = Some ''processed'' \<and>
                   collectTranscript (dr_results finalResult) \<noteq> []
                then Inr (collectTranscript (dr_results finalResult))
                else Inl (timeout_error doc))"
    by (simp add: finalCheck_def Let_def split: sum.splits)
  show ?thesis using n p o timeout_error_names_document by blast
qed

theorem polling_bounded_then_timeout_witness:
  "outcome (transcribeHandwriting
     (vendor (\<lambda>k. processing_response) (\<lambda>k. if k = 0 then 1500 else 241000))
     (File ''essay.jpg'') default_options) = Inl (timeout_error ''doc-1'') \<and>
   includes_str (err_message (timeout_error ''doc-1'')) ''doc-1''"
proof -
  let ?env = "vendor (\<lambda>k. processing_response) (\<lambda>k. if k = 0 then 1500 else 241000)"
  have a: "\<not> aborted_at_start ?env" by (simp add: vendor_def)
  have u: "uploadDocument ?env (File ''essay.jpg'') = Inr ''doc-1''" by code_simp
  have m: "(120::nat) = or_else (opt_maxAttempts default_options) 120" by code_simp
  have w: "(240000::int) = or_else (opt_maxWaitMs default_options) 240000" by code_simp
  have p0: "within_caps ?env 120 240000 0 \<and> still_pending ?env ''doc-1'' 0" by code_simp
  have p: "\<forall>k<1. within_caps ?env 120 240000 k \<and> still_pending ?env ''doc-1'' k"
    using p0 by simp
  have s: "\<not> within_caps ?env 120 240000 1" by code_simp
  have f: "fetchDocumentStatus ?env ''doc-1'' 1 =
             Inr \<lparr>dr_status = Some ''processing'', dr_results = None, dr_message = None,
                  retryAfterMs = None, httpStatus = 200\<rparr>"
    by code_simp
  show ?thesis
    using polling_bounded_then_timeout [OF a u m w p s] f by simp
qed

text \<open>
  Claim C5, as the specification states it, fails: a "processed" status whose pages give
  no text makes the call raise instead of returning the (empty) concatenation, pages
  with an empty transcript are dropped before joining, so they add no separator, and the
  pages are taken in the order of the list, whatever their page numbers. A page of white
  space only (here U+3000 and U+00A0) trims to nothing and raises as well.
\<close>

theorem blank_transcript_counterexample:
  "outcome (transcribeHandwriting
     (vendor (\<lambda>k. processed_response ['''']) (\<lambda>k. 0))
     (File ''essay.jpg'') default_options)
     = Inl (Error ''OCR finished but returned empty transcript'') \<and>
   outcome (transcribeHandwriting
     (vendor (\<lambda>k. processed_response [''Hello'', '''', ''World'']) (\<lambda>k. 0))
     (File ''essay.jpg'') default_options)
     = Inr (''Hello'' @ [CHR 0x0A, CHR 0x0A] @ ''World'') \<and>
   outcome (transcribeHandwriting
     (vendor (\<lambda>k. processed_pages [\<lparr>page_number = Some 2, transcript = Some ''World''\<rparr>,
                                      \<lparr>page_number = Some 1, transcript = Some ''Hello''\<rparr>])
             (\<lambda>k. 0))
     (File ''essay.jpg'') default_options)
     = Inr (''World'' @ [CHR 0x0A, CHR 0x0A] @ ''Hello'') \<and>
   outcome (transcribeHandwriting
     (vendor (\<lambda>k. processed_response [[CHR 0xE3, CHR 0x80, CHR 0x80, CHR 0xC2, CHR 0xA0]])
             (\<lambda>k. 0))
     (File ''essay.jpg'') default_options)
     = Inl (Error ''OCR finished but returned empty transcript'')"
  by code_simp

text \<open>
  Claim C5 (amended): when the first status request that is not still pending arrives
  within the caps and reports "processed" with a list of pages, the text is the non-empty
  page transcripts, in the order of the list, joined by blank lines and trimmed; the call
  returns that text when it is non-empty and fails with "OCR finished but returned empty
  transcript" when it is empty. The text neither starts nor ends with a white space
  character or line terminator (of ECMAScript, Unicode ones included). The run
  has sent exactly n + 1 status requests. For the pages "Hello" and "World" after two
  pending requests the returned text is "Hello", a blank line, "World", after 3 requests.
\<close>

theorem transcript_of_processed_poll:
  assumes "\<not> aborted_at_start env" and "uploadDocument env f = Inr doc"
    and "maxAttempts = or_else (opt_maxAttempts options) 120"
    and "maxWaitMs = or_else (opt_maxWaitMs options) 240000"
    and "\<forall>k<n. within_caps env maxAttempts maxWaitMs k \<and> still_pending env doc k"
    and "within_caps env maxAttempts maxWaitMs n"
    and "fetchDocumentStatus env doc n = Inr result"
    and "dr_status result = Some ''processed''"
    and "dr_results result = Some pages"
    and "text = trim (join [CHR 0x0A, CHR 0x0A]
                   (filter (\<lambda>t. t \<noteq> []) (map (\<lambda>p. str_or (transcript p) []) pages)))"
  shows "outcome (transcribeHandwriting env f options) =
           (if text = [] then Inl (Error ''OCR finished but returned empty transcript'')
            else Inr text) \<and>
         polls (transcribeHandwriting env f options) = n + 1 \<and>
         ws_len white_space text = 0 \<and>
         ws_len (map rev white_space) (rev text) = 0"
proof -
  let ?pi = "or_else (opt_pollIntervalMs options) 2000"
  have run: "transcribeHandwriting env f options = pollLoop env doc ?pi maxAttempts maxWaitMs 0 ?pi"
    using transcribe_run [OF assms(1) assms(2)] assms(3) assms(4) by simp
  have t: "collectTranscript (dr_results result) = text"
    using assms(9) assms(10) by (simp add: collectTranscript_def)
  from pollLoop_skip [of 0 n env maxAttempts maxWaitMs doc ?pi ?pi] assms(5)
  obtain d' where
    s: "outcome (pollLoop env doc ?pi maxAttempts maxWaitMs 0 ?pi) =
          outcome (pollLoop env doc ?pi maxAttempts maxWaitMs n d')"
       "polls (pollLoop env doc ?pi maxAttempts maxWaitMs 0 ?pi) =
          (n - 0) + polls (pollLoop env doc ?pi maxAttempts maxWaitMs n d')"
    by auto
  have l: "pollLoop env doc ?pi maxAttempts maxWaitMs n d' =
             (if text \<noteq> []
              then \<lparr>iterations = [], polls = 1, saved = Some text, outcome = Inr text\<rparr>
              else \<lparr>iterations = [], polls = 1, saved = None,
                    outcome = Inl (Error ''OCR finished but returned empty transcript'')\<rparr>)"
    using assms(6) assms(7) assms(8) t
    by (subst pollLoop.simps) (simp add: within_caps_def Let_def)
  have o: "outcome (transcribeHandwriting env f options) =
           (if text = [] then Inl (Error ''OCR finished but returned empty transcript'')
            else Inr text)"
    using run s(1) l by simp
  have p: "polls (transcribeHandwriting env f options) = n + 1"
    using run s(2) l by simp
  have w: "ws_len white_space text = 0 \<and> ws_len (map rev white_space) (rev text) = 0"
    unfolding assms(10) by (rule trim_clean)
  show ?thesis using o p w by blast
qed

theorem transcript_of_processed_poll_witness:
  "outcome (transcribeHandwriting
     (vendor (\<lambda>k. if k < 2 then processing_response
                   else processed_response [''Hello'', ''World''])
             (\<lambda>k. 3000 * int k))
     (File ''essay.jpg'') default_options)
     = Inr (''Hello'' @ [CHR 0x0A, CHR 0x0A] @ ''World'') \<and>
   polls (transcribeHandwriting
     (vendor (\<lambda>k. if k < 2 then processing_response
                   else processed_response [''Hello'', ''World''])
             (\<lambda>k. 3000 * int k))
     (File ''essay.jpg'') default_options) = 3"
proof -
  let ?env = "vendor (\<lambda>k. if k < 2 then processing_response
                            else processed_response [''Hello'', ''World''])
                     (\<lambda>k. 3000 * int k)"
  let ?pages = "[\<lparr>page_number = None, transcript = Some ''Hello''\<rparr>,
                 \<lparr>page_number = None, transcript = Some ''World''\<rparr>]"
  let ?result = "\<lparr>dr_status = Some ''processed'', dr_results = Some ?pages,
                   dr_message = None, retryAfterMs = None, httpStatus = 200\<rparr>"
  have a: "\<not> aborted_at_start ?env" by (simp add: vendor_def)
  have u: "uploadDocument ?env (File ''essay.jpg'') = Inr ''doc-1''" by code_simp
  have m: "(120::nat) = or_else (opt_maxAttempts default_options) 120" by code_simp
  have w: "(240000::int) = or_else (opt_maxWaitMs default_options) 240000" by code_simp
  have p0: "within_caps ?env 120 240000 0 \<and> still_pending ?env ''doc-1'' 0" by code_simp
  have p1: "within_caps ?env 120 240000 1 \<and> still_pending ?env ''doc-1'' 1" by code_simp
  have p: "\<forall>k<2. within_caps ?env 120 240000 k \<and> still_pending ?env ''doc-1'' k"
    using p0 p1 by (simp add: less_Suc_eq numeral_2_eq_2)
  have c: "within_caps ?env 120 240000 2" by code_simp
  have f: "fetchDocumentStatus ?env ''doc-1'' 2 = Inr ?result" by code_simp
  have s: "dr_status ?result = Some ''processed''" by simp
  have r: "dr_results ?result = Some ?pages" by simp
  have t: "''Hello'' @ [CHR 0x0A, CHR 0x0A] @ ''World'' =
             trim (join [CHR 0x0A, CHR 0x0A]
               (filter (\<lambda>t. t \<noteq> []) (map (\<lambda>p. str_or (transcript p) []) ?pages)))"
    by code_simp
  show ?thesis
    using transcript_of_processed_poll [OF a u m w p c f s r t] by simp
qed

text \<open>
  Claim C4, as the specification states it, fails on the wait without a header: it is
  capped at 30 seconds, not 45. After nine ordinary polls the adaptive delay is 20000 ms;
  a 429 without \<open>Retry-After\<close> then waits 30000 ms, not min (2 * 20000) 45000 = 40000.
\<close>

theorem rate_limit_cap_counterexample:
  "map (\<lambda>it. (httpStatus (it_result it), retryAfterMs (it_result it), it_delay it, it_wait it))
     (iterations (transcribeHandwriting
        (vendor (\<lambda>k. if k < 9 then processing_response
                      else if k = 9 then rate_limited_response No_header
                      else processed_response [''Hello''])
                (\<lambda>k. 0))
        (File ''essay.jpg'') default_options)) ! 9
     = (429, None, 20000, 30000) \<and>
   min (2 * 20000) 45000 = (40000::int)"
  by code_simp

text \<open>
  The result of a status request carries the HTTP status and the parsed header.
\<close>

lemma fetchDocumentStatus_fields:
  assumes "fetchDocumentStatus env doc k = Inr r" and "status_fetch env doc k = Inr response"
  shows "httpStatus r = resp_status response \<and>
         retryAfterMs r =
           (case resp_retry_after response of
              Seconds s \<Rightarrow> Some (s * 1000)
            | No_header \<Rightarrow> None
            | Not_a_number \<Rightarrow> None)"
  using assms by (auto simp: fetchDocumentStatus_def split: if_splits)

text \<open>
  Claim C4 (amended): for every iteration of a run whose status request returned HTTP
  429, the wait before the next request is the \<open>Retry-After\<close> value in milliseconds when
  the header is present and numeric; otherwise it is the current adaptive delay doubled,
  capped at 30 seconds. (45 seconds is the cap of the delay carried to the next
  iteration, which is the wait plus the base interval.)
\<close>

theorem rate_limited_wait:
  assumes "it \<in> set (iterations (transcribeHandwriting env f options))"
    and "uploadDocument env f = Inr doc"
    and "status_fetch env doc (it_attempt it) = Inr response"
    and "resp_status response = 429"
  shows "it_wait it =
           (case resp_retry_after response of
              Seconds s \<Rightarrow> s * 1000
            | No_header \<Rightarrow> min (it_delay it * 2) 30000
            | Not_a_number \<Rightarrow> min (it_delay it * 2) 30000) \<and>
         it_next_delay it =
           min (it_wait it + or_else (opt_pollIntervalMs options) 2000) 45000"
proof -
  let ?pi = "or_else (opt_pollIntervalMs options) 2000"
  from transcribe_chained [of env options f] assms(1) assms(2)
  have c: "chained env doc ?pi ?pi (iterations (transcribeHandwriting env f options))"
    by auto
  from chained_member [OF c assms(1)]
  have r: "fetchDocumentStatus env doc (it_attempt it) = Inr (it_result it)"
    and w: "it_wait it = waitMs ?pi (it_delay it) (it_result it)"
    and n: "it_next_delay it = nextDelay ?pi (it_delay it) (it_result it)"
    by auto
  from fetchDocumentStatus_fields [OF r assms(3)]
  have h: "httpStatus (it_result it) = resp_status response"
    and a: "retryAfterMs (it_result it) =
              (case resp_retry_after response of
                 Seconds s \<Rightarrow> Some (s * 1000)
               | No_header \<Rightarrow> None
               | Not_a_number \<Rightarrow> None)"
    by auto
  show ?thesis
    using w n h a assms(4)
    by (simp add: waitMs_def nextDelay_def split: retry_after.splits)
qed

theorem rate_limited_wait_witness:
  "map it_wait (iterations (transcribeHandwriting
      (vendor (\<lambda>k. if k = 0 then rate_limited_response (Seconds 5)
                    else processed_response [''Hello''])
              (\<lambda>k. 0))
      (File ''essay.jpg'') default_options)) = [5000]"
proof -
  let ?env = "vendor (\<lambda>k. if k = 0 then rate_limited_response (Seconds 5)
                            else processed_response [''Hello''])
                     (\<lambda>k. 0)"
  let ?it = "\<lparr>it_attempt = 0,
              it_result = \<lparr>dr_status = None, dr_results = None, dr_message = None,
                            retryAfterMs = Some 5000, httpStatus = 429\<rparr>,
              it_delay = 2000, it_wait = 5000, it_next_delay = 7000\<rparr>"
  have i: "iterations (transcribeHandwriting ?env (File ''essay.jpg'') default_options) = [?it]"
    by code_simp
  have m: "?it \<in> set (iterations (transcribeHandwriting ?env (File ''essay.jpg'') default_options))"
    unfolding i by simp
  have u: "uploadDocument ?env (File ''essay.jpg'') = Inr ''doc-1''" by code_simp
  have s: "status_fetch ?env ''doc-1'' (it_attempt ?it) = Inr (rate_limited_response (Seconds 5))"
    by (simp add: vendor_def)
  have r: "resp_status (rate_limited_response (Seconds 5)) = 429"
    by (simp add: rate_limited_response_def)
  have "it_wait ?it = 5 * 1000"
    using rate_limited_wait [OF m u s r] by (simp add: rate_limited_response_def)
  then show ?thesis unfolding i by simp
qed

text \<open>
  Claim C6, as the specification states it, fails: after a 429 with \<open>Retry-After: 40\<close> the
  carried delay is 42000 ms (above 30 seconds), and after the next ordinary poll it is
  20000 ms (it decreased).
\<close>

theorem delay_not_monotone_counterexample:
  "map (\<lambda>it. (httpStatus (it_result it), it_delay it, it_next_delay it))
     (iterations (transcribeHandwriting
        (vendor (\<lambda>k. if k = 0 then rate_limited_response (Seconds 40)
                      else if k = 1 then processing_response
                      else processed_response [''Hello''])
                (\<lambda>k. 0))
        (File ''essay.jpg'') default_options))
     = [(429, 2000, 42000), (200, 42000, 20000)]"
  by code_simp

text \<open>
  Claim C6 (amended): within one run the adaptive delay is carried forward: the first
  iteration starts from the base interval and every later one from the delay the previous
  iteration left. After an iteration the delay is min (wait + base) ceiling, where the
  ceiling is 45 seconds after a rate-limited (429) poll and 20 seconds otherwise. Across
  an iteration that is not rate limited the delay does not decrease as long as it is at
  most 20 seconds (base interval not negative); so in a run without rate-limited polls
  and with a base of at most 20 seconds the delays grow monotonically and stay at most 20
  seconds.
\<close>

theorem adaptive_delay_carried_forward:
  assumes "its = iterations (transcribeHandwriting env f options)"
    and "base = or_else (opt_pollIntervalMs options) 2000"
  shows "(its \<noteq> [] \<longrightarrow> it_delay (hd its) = base) \<and>
         (\<forall>i. Suc i < length its \<longrightarrow> it_delay (its ! Suc i) = it_next_delay (its ! i)) \<and>
         (\<forall>it\<in>set its.
            it_next_delay it =
              min (it_wait it + base) (if httpStatus (it_result it) = 429 then 45000 else 20000) \<and>
            (httpStatus (it_result it) \<noteq> 429 \<and> it_delay it \<le> 20000 \<and> 0 \<le> base
               \<longrightarrow> it_delay it \<le> it_next_delay it)) \<and>
         (0 \<le> base \<and> base \<le> 20000 \<and> (\<forall>it\<in>set its. httpStatus (it_result it) \<noteq> 429)
            \<longrightarrow> sorted (map it_delay its) \<and> (\<forall>it\<in>set its. it_delay it \<le> 20000))"
proof -
  from transcribe_chained [of env options f] assms
  obtain doc where c: "chained env doc base base its" by auto
  have h: "its \<noteq> [] \<longrightarrow> it_delay (hd its) = base"
    using chained_head [OF c] by simp
  have l: "\<forall>i. Suc i < length its \<longrightarrow> it_delay (its ! Suc i) = it_next_delay (its ! i)"
    using chained_link [OF c] by simp
  have s: "\<forall>it\<in>set its.
            it_next_delay it =
              min (it_wait it + base) (if httpStatus (it_result it) = 429 then 45000 else 20000) \<and>
            (httpStatus (it_result it) \<noteq> 429 \<and> it_delay it \<le> 20000 \<and> 0 \<le> base
               \<longrightarrow> it_delay it \<le> it_next_delay it)"
  proof
    fix it assume "it \<in> set its"
    from chained_member [OF c this]
    have w: "it_wait it = waitMs base (it_delay it) (it_result it)"
      and n: "it_next_delay it = nextDelay base (it_delay it) (it_result it)" by auto
    show "it_next_delay it =
              min (it_wait it + base) (if httpStatus (it_result it) = 429 then 45000 else 20000) \<and>
            (httpStatus (it_result it) \<noteq> 429 \<and> it_delay it \<le> 20000 \<and> 0 \<le> base
               \<longrightarrow> it_delay it \<le> it_next_delay it)"
      using w n nextDelay_grows [of "it_result it" "it_delay it" base]
      by (auto simp: nextDelay_def)
  qed
  have m: "0 \<le> base \<and> base \<le> 20000 \<and> (\<forall>it\<in>set its. httpStatus (it_result it) \<noteq> 429)
            \<longrightarrow> sorted (map it_delay its) \<and> (\<forall>it\<in>set its. it_delay it \<le> 20000)"
    using chained_sorted [OF c] by blast
  show ?thesis using h l s m by blast
qed

theorem adaptive_delay_carried_forward_witness:
  "map (\<lambda>it. (it_delay it, it_next_delay it))
     (iterations (transcribeHandwriting
        (vendor (\<lambda>k. if k < 3 then processing_response else processed_response [''Hello''])
                (\<lambda>k. 0))
        (File ''essay.jpg'') default_options))
     = [(2000, 4000), (4000, 6000), (6000, 8000)] \<and>
   sorted (map it_delay
     (iterations (transcribeHandwriting
        (vendor (\<lambda>k. if k < 3 then processing_response else processed_response [''Hello''])
                (\<lambda>k. 0))
        (File ''essay.jpg'') default_options)))"
proof -
  let ?run = "transcribeHandwriting
        (vendor (\<lambda>k. if k < 3 then processing_response else processed_response [''Hello''])
                (\<lambda>k. 0))
        (File ''essay.jpg'') default_options"
  have e: "map (\<lambda>it. (it_delay it, it_next_delay it)) (iterations ?run)
             = [(2000, 4000), (4000, 6000), (6000, 8000)]"
    by code_simp
  have b: "(2000::int) = or_else (opt_pollIntervalMs default_options) 2000" by code_simp
  have n: "\<forall>it\<in>set (iterations ?run). httpStatus (it_result it) \<noteq> 429" by code_simp
  have "sorted (map it_delay (iterations ?run))"
    using adaptive_delay_carried_forward [OF refl b, of _ "File ''essay.jpg''"] n
    by simp
  with e show ?thesis by simp
qed

section \<open>Properties of the model router\<close>

text \<open>
  Claim C7, as the specification states it, fails for a request whose abort signal is
  already aborted: the router checks the signal before it looks at the key, so the
  error is the cancellation error, which does not name the missing key.
\<close>

theorem cancelled_before_key_check_counterexample:
  "routeModel grading_reply keys_without_openai a_bundle (config_for Openai ''gpt-4o-mini'') True
     = ([], Inl (Error ''Processing cancelled''))"
  by code_simp

text \<open>
  Claim C7 (amended): for every grading request routed to the provider "openai" while no
  OpenAI API key is configured, the router fails without sending any HTTP request; the
  error is "OpenAI API key is missing", unless the request's abort signal is already
  aborted, in which case it is the cancellation error.
\<close>

theorem openai_missing_key_fails_fast:
  assumes "provider (cfg_model config) = Openai" and "\<not> truthy (OPENAI_API_KEY consts)"
  shows "routeModel network consts bundle config aborted =
           ([], Inl (if aborted then cancel_error else Error ''OpenAI API key is missing''))"
  using assms by (simp add: routeModel_def runOpenAIStyleModel_def)

theorem openai_missing_key_fails_fast_witness:
  "routeModel grading_reply keys_without_openai a_bundle (config_for Openai ''gpt-4o-mini'') False
     = ([], Inl (Error ''OpenAI API key is missing''))"
  using openai_missing_key_fails_fast
    [of "config_for Openai ''gpt-4o-mini''" keys_without_openai grading_reply a_bundle False]
  by (simp add: config_for_def keys_without_openai_def truthy_def)

section \<open>Properties of the agent and of retry\<close>

lemma pollLoop_nonempty: "outcome (pollLoop env doc pi ma mw a d) = Inr t \<Longrightarrow> t \<noteq> []"
proof (induction env doc pi ma mw a d rule: pollLoop.induct)
  case (1 env doc pi ma mw a d)
  show ?case
  proof (cases "a < ma \<and> elapsed_ms env a < mw")
    case False
    with "1.prems" show ?thesis
      by (subst (asm) pollLoop.simps)
         (auto simp: finalCheck_def Let_def split: sum.splits if_splits)
  next
    case True
    show ?thesis
    proof (cases "fetchDocumentStatus env doc a")
      case (Inl e)
      with True "1.prems" show ?thesis
        by (subst (asm) pollLoop.simps) simp
    next
      case (Inr r)
      show ?thesis
      proof (cases "dr_status r = Some ''processed'' \<or> dr_status r = Some ''failed''
                    \<or> delay_aborted env a")
        case True
        with \<open>a < ma \<and> elapsed_ms env a < mw\<close> Inr "1.prems" show ?thesis
          by (subst (asm) pollLoop.simps) (auto simp: Let_def split: if_splits)
      next
        case False
        with \<open>a < ma \<and> elapsed_ms env a < mw\<close> Inr "1.prems"
        have "outcome (pollLoop env doc pi ma mw (Suc a) (nextDelay pi d r)) = Inr t"
          by (subst (asm) pollLoop.simps) (auto simp: Let_def)
        with False \<open>a < ma \<and> elapsed_ms env a < mw\<close> Inr show ?thesis
          using "1.IH" [of r] by (auto simp: Let_def)
      qed
    qed
  qed
qed

lemma transcribe_nonempty:
  "outcome (transcribeHandwriting env f options) = Inr t \<Longrightarrow> t \<noteq> []"
  using pollLoop_nonempty
  by (auto simp: transcribeHandwriting_def Let_def split: if_splits sum.splits)

lemma ocr_step_text:
  "snd (ocr_step env essay skipOcr) =
     (case fresh_transcript (env\<lparr>aborted_on_entry := False\<rparr>) essay skipOcr of
        Some t \<Rightarrow> t
      | None \<Rightarrow> str_or (rawText essay) (ocrText essay))"
  by (auto simp: ocr_step_def fresh_transcript_def Let_def split: option.splits sum.splits)

lemma agent_try_text:
  "textForModel (agent_try env essay config skipOcr) =
     (case fresh_transcript env essay skipOcr of
        Some t \<Rightarrow> t
      | None \<Rightarrow> str_or (rawText essay) (ocrText essay))"
proof (cases "aborted_on_entry env")
  case True
  then show ?thesis
    by (auto simp: agent_try_def fresh_transcript_def split: option.splits)
next
  case False
  then have f: "fresh_transcript (env\<lparr>aborted_on_entry := False\<rparr>) essay skipOcr =
                fresh_transcript env essay skipOcr"
    by (auto simp: fresh_transcript_def split: option.splits)
  have "textForModel (agent_try env essay config skipOcr) = snd (ocr_step env essay skipOcr)"
    using False
    by (auto simp: agent_try_def Let_def split: prod.splits sum.splits option.splits)
  then show ?thesis using ocr_step_text [of env essay skipOcr] f by simp
qed

lemma fresh_transcript_nonempty: "fresh_transcript env essay skipOcr = Some t \<Longrightarrow> t \<noteq> []"
  using transcribe_nonempty
  by (auto simp: fresh_transcript_def split: option.splits if_splits sum.splits)

lemma agent_try_aborted:
  "aborted_on_entry env \<or> aborted_before_grading env \<Longrightarrow>
     try_result (agent_try env essay config skipOcr) = Inl cancel_error"
  by (auto simp: agent_try_def Let_def split: prod.splits)

lemma cancel_error_is_cancelled:
  "includes_str (toLowerCase (err_message cancel_error)) ''cancelled''"
  by (simp add: cancel_error_def Error_def toLowerCase_def lower_char_def)

lemma agent_catch_cancelled:
  assumes "raised_by_signal e"
  shows "status (agent_catch essay txt e) = CANCELLED \<and>
         progressStep (agent_catch essay txt e) = Some Ps_cancelled \<and>
         progressMessage (agent_catch essay txt e) = Some msg_user_cancelled \<and>
         errorMessage (agent_catch essay txt e) = Some msg_user_cancelled \<and>
         ocrText (agent_catch essay txt e) =
           str_or (Some txt) (str_or (Some (ocrText essay)) (str_or (rawText essay) []))"
  using assms cancel_error_is_cancelled
  by (auto simp: agent_catch_def raised_by_signal_def Let_def)

text \<open>
  Claim C2, as the specification states it, fails on the preserved text: the text for the
  model is the raw text when the essay has one, and the cancelled record carries that
  text as its OCR text. An imported transcript whose OCR text was corrected on its card
  (so that it differs from the raw text of the import) comes back from a cancelled run
  with the raw text in the field: the corrected OCR text is not preserved.
\<close>

theorem raw_text_overrides_ocr_text_counterexample:
  "status (snd (processEssayAgent (a_world True grading_reply)
             (an_essay Sub_markdown None (Some ''Dear Tpm'') ''Dear Tom'')
             (config_for Openai ''gpt-4o-mini'') True)) = CANCELLED \<and>
   ocrText (an_essay Sub_markdown None (Some ''Dear Tpm'') ''Dear Tom'') = ''Dear Tom'' \<and>
   ocrText (snd (processEssayAgent (a_world True grading_reply)
             (an_essay Sub_markdown None (Some ''Dear Tpm'') ''Dear Tom'')
             (config_for Openai ''gpt-4o-mini'') True)) = ''Dear Tpm''"
  by code_simp

text \<open>
  Claim C2 (amended): every run of \<open>processEssayAgent\<close> that is aborted through its signal
  (the signal is found aborted on entry or before grading, or the run is ended by an
  exception that the signal raises: the cancellation error of a check, or the AbortError
  of an aborted request) resolves to a record with status CANCELLED, progress step
  "cancelled" and the cancellation message, not to the generic error state. The OCR text
  of that record is the text captured for grading: the transcript obtained in this run if
  its OCR step ran and succeeded, otherwise the essay's raw text if it has one, otherwise
  the essay's stored OCR text. So the stored OCR text is preserved for every essay
  without raw text whose OCR step did not produce a new transcript.
\<close>

theorem aborted_run_is_cancelled:
  assumes "aborted_on_entry env \<or> aborted_before_grading env \<or>
           (\<exists>e. try_result (agent_try env essay config skipOcr) = Inl e \<and> raised_by_signal e)"
  shows "status (snd (processEssayAgent env essay config skipOcr)) = CANCELLED \<and>
         progressStep (snd (processEssayAgent env essay config skipOcr)) = Some Ps_cancelled \<and>
         errorMessage (snd (processEssayAgent env essay config skipOcr)) = Some msg_user_cancelled \<and>
         ocrText (snd (processEssayAgent env essay config skipOcr)) =
           (case fresh_transcript env essay skipOcr of
              Some t \<Rightarrow> t
            | None \<Rightarrow> str_or (rawText essay) (ocrText essay)) \<and>
         (\<not> truthy (rawText essay) \<and> fresh_transcript env essay skipOcr = None \<longrightarrow>
            ocrText (snd (processEssayAgent env essay config skipOcr)) = ocrText essay)"
proof -
  from assms agent_try_aborted [of env essay config skipOcr]
  obtain e where e: "try_result (agent_try env essay config skipOcr) = Inl e"
    and s: "raised_by_signal e"
    by (auto simp: raised_by_signal_def)
  define T where "T = textForModel (agent_try env essay config skipOcr)"
  define R where "R = snd (processEssayAgent env essay config skipOcr)"
  define F where "F = (case fresh_transcript env essay skipOcr of
                         Some t \<Rightarrow> t
                       | None \<Rightarrow> str_or (rawText essay) (ocrText essay))"
  have r: "R = agent_catch essay T e"
    using e by (simp add: R_def T_def processEssayAgent_def Let_def)
  have t: "T = F"
    unfolding T_def F_def by (rule agent_try_text)
  have o: "str_or (Some F) (str_or (Some (ocrText essay)) (str_or (rawText essay) [])) = F"
    unfolding F_def using fresh_transcript_nonempty [of env essay skipOcr]
    by (auto simp: str_or_def truthy_def split: option.splits)
  have c: "\<not> truthy (rawText essay) \<and> fresh_transcript env essay skipOcr = None \<longrightarrow>
             F = ocrText essay"
    unfolding F_def by (auto simp: str_or_def truthy_def split: option.splits)
  from agent_catch_cancelled [OF s, of essay T]
  have a: "status R = CANCELLED" "progressStep R = Some Ps_cancelled"
    "errorMessage R = Some msg_user_cancelled"
    "ocrText R = str_or (Some T) (str_or (Some (ocrText essay)) (str_or (rawText essay) []))"
    unfolding r by blast+
  have x: "ocrText R = F" using a(4) o t by simp
  have y: "\<not> truthy (rawText essay) \<and> fresh_transcript env essay skipOcr = None \<longrightarrow>
             ocrText R = ocrText essay"
    using x c by simp
  show ?thesis
    using a(1) a(2) a(3) x y unfolding R_def F_def by blast
qed

theorem aborted_run_is_cancelled_witness:
  "status (snd (processEssayAgent (a_world False aborted_fetch)
             (an_essay Sub_image None None ''Dear Tom'')
             (config_for Openai ''gpt-4o-mini'') True)) = CANCELLED \<and>
   progressStep (snd (processEssayAgent (a_world False aborted_fetch)
             (an_essay Sub_image None None ''Dear Tom'')
             (config_for Openai ''gpt-4o-mini'') True)) = Some Ps_cancelled \<and>
   ocrText (snd (processEssayAgent (a_world False aborted_fetch)
             (an_essay Sub_image None None ''Dear Tom'')
             (config_for Openai ''gpt-4o-mini'') True)) = ''Dear Tom''"
proof -
  let ?env = "a_world False aborted_fetch"
  let ?essay = "an_essay Sub_image None None ''Dear Tom''"
  let ?config = "config_for Openai ''gpt-4o-mini''"
  have t: "try_result (agent_try ?env ?essay ?config True)
             = Inl (JsError ''AbortError'' ''The user aborted a request.'')"
    by code_simp
  have s: "raised_by_signal (JsError ''AbortError'' ''The user aborted a request.'')"
    by (simp add: raised_by_signal_def)
  have h: "aborted_on_entry ?env \<or> aborted_before_grading ?env \<or>
           (\<exists>e. try_result (agent_try ?env ?essay ?config True) = Inl e \<and> raised_by_signal e)"
    using t s by blast
  have f: "fresh_transcript ?env ?essay True = None" by code_simp
  have r: "rawText ?essay = None" "ocrText ?essay = ''Dear Tom''"
    by (simp_all add: an_essay_def)
  show ?thesis
    using aborted_run_is_cancelled [OF h] f r by (simp add: str_or_def)
qed

lemma ocr_step_skipped: "ocr_step env essay True = ([], str_or (rawText essay) (ocrText essay))"
  by (simp add: ocr_step_def Let_def split: option.splits)

lemma agent_skip_events: "list_all grading_only (fst (processEssayAgent env essay config True))"
  by (auto simp: processEssayAgent_def agent_try_def ocr_step_skipped Let_def list_all_iff
      split: prod.splits sum.splits option.splits)

lemma entered_steps_append:
  "entered_steps (xs @ ys) = entered_steps xs @ entered_steps ys"
  by (induction xs rule: entered_steps.induct) simp_all

lemma on_progress_grading:
  assumes "list_all grading_only evs"
  shows "filter is_transcribe (concat (map (on_progress i) evs)) = [] \<and>
         set (entered_steps (concat (map (on_progress i) evs))) \<subseteq> {Ps_grading, Ps_done}"
  using assms
proof (induction evs)
  case Nil
  then show ?case by simp
next
  case (Cons ev evs)
  then show ?case
    by (cases ev) (auto simp: on_progress_def entered_steps_append)
qed

lemma routeModel_bundle:
  "r \<in> set (fst (routeModel network consts bundle config aborted)) \<Longrightarrow> req_bundle r = bundle"
  by (auto simp: routeModel_def runOpenAIStyleModel_def runGeminiModel_def Let_def
      split: if_splits AIProvider.splits)

lemma agent_requests_use_text:
  assumes "trim (str_or (rawText essay) (ocrText essay)) \<noteq> []"
    and "Request r \<in> set (fst (processEssayAgent env essay config True))"
  shows "image (req_bundle r) = None"
proof -
  let ?text = "str_or (rawText essay) (ocrText essay)"
  have n: "?text \<noteq> []"
  proof
    assume "?text = []"
    then have "trim ?text = []" by (simp add: trim_Nil)
    with assms(1) show False by simp
  qed
  have b: "buildPromptBundle env essay config ?text =
             Inr \<lparr>systemPrompt = render_system env config,
                  userPrompt = render_user env config essay (Some (trim ?text)),
                  image = None\<rparr>"
    using assms(1) n by (simp add: buildPromptBundle_def Let_def str_or_def)
  from assms(2) have "r \<in> set (fst (routeModel (http env) (api_keys env)
             \<lparr>systemPrompt = render_system env config,
              userPrompt = render_user env config essay (Some (trim ?text)),
              image = None\<rparr> config (aborted_at_dispatch env)))"
    by (auto simp: processEssayAgent_def agent_try_def ocr_step_skipped b Let_def
        split: prod.splits sum.splits option.splits if_splits)
  from routeModel_bundle [OF this] show ?thesis by simp
qed

lemma on_progress_one:
  "Agent (Request r) \<in> set (on_progress i ev) \<Longrightarrow> ev = Request r"
  by (cases ev) (auto simp: on_progress_def)

lemma on_progress_request:
  "Agent (Request r) \<in> set (concat (map (on_progress i) evs)) \<Longrightarrow> Request r \<in> set evs"
  using on_progress_one by (induction evs) auto

lemma runGradingStep_requests:
  assumes "trim (str_or (rawText essay) (ocrText essay)) \<noteq> []"
    and "Agent (Request r) \<in> set (runGradingStep env config essay)"
  shows "image (req_bundle r) = None"
proof -
  let ?essay = "essay\<lparr>ocrText := str_or (Some (ocrText essay)) (str_or (rawText essay) [])\<rparr>"
  have t: "str_or (rawText ?essay) (ocrText ?essay) = str_or (rawText essay) (ocrText essay)"
    by (auto simp: str_or_def split: option.splits)
  obtain evs x where p: "processEssayAgent env ?essay config True = (evs, x)"
    by (cases "processEssayAgent env ?essay config True") auto
  from assms(2) p have "Agent (Request r) \<in> set (concat (map (on_progress (essay_id essay)) evs))"
    by (auto simp: runGradingStep_def Let_def)
  then have "Request r \<in> set (fst (processEssayAgent env ?essay config True))"
    using p on_progress_request by fastforce
  from agent_requests_use_text [OF _ this] assms(1) t show ?thesis by simp
qed

lemma runGradingStep_steps:
  "filter is_transcribe (runGradingStep env config essay) = [] \<and>
   set (entered_steps (runGradingStep env config essay)) \<subseteq> {Ps_grading, Ps_done} \<and>
   hd (entered_steps (runGradingStep env config essay)) = Ps_grading"
proof -
  obtain evs r where p: "processEssayAgent env
      (essay\<lparr>ocrText := str_or (Some (ocrText essay)) (str_or (rawText essay) [])\<rparr>)
      config True = (evs, r)"
    by (cases "processEssayAgent env
      (essay\<lparr>ocrText := str_or (Some (ocrText essay)) (str_or (rawText essay) [])\<rparr>)
      config True") auto
  have "list_all grading_only evs"
    using agent_skip_events [of env
      "essay\<lparr>ocrText := str_or (Some (ocrText essay)) (str_or (rawText essay) [])\<rparr>" config] p
    by simp
  from on_progress_grading [OF this, of "essay_id essay"]
  show ?thesis
    using p by (auto simp: runGradingStep_def Let_def entered_steps_append)
qed

lemma agent_events_append: "agent_events (xs @ ys) = agent_events xs @ agent_events ys"
  by (induction xs rule: agent_events.induct) simp_all

lemma agent_events_on_progress: "agent_events (concat (map (on_progress i) evs)) = evs"
proof (induction evs)
  case Nil
  then show ?case by simp
next
  case (Cons ev evs)
  then show ?case
    by (cases ev) (simp_all add: on_progress_def agent_events_append)
qed

lemma requests_of_append: "requests_of (xs @ ys) = requests_of xs @ requests_of ys"
  by (induction xs rule: requests_of.induct) simp_all

lemma requests_of_map: "requests_of (map Request rs) = rs"
  by (induction rs) simp_all

lemma runGradingStep_agent:
  "agent_events (runGradingStep env config essay) =
     fst (processEssayAgent env (retry_input essay) config True)"
  by (simp add: runGradingStep_def retry_input_def Let_def agent_events_append
      agent_events_on_progress split: prod.splits)

lemma runGradingStep_merges:
  "\<exists>before updated.
     runGradingStep env config essay =
       before @ [MergeEssay (essay_id essay) updated, CleanupController (essay_id essay)] \<and>
     status updated = COMPLETED \<and>
     ocrText updated = ocrText (snd (processEssayAgent env (retry_input essay) config True)) \<and>
     gradingResult updated =
       gradingResult (snd (processEssayAgent env (retry_input essay) config True))"
proof -
  obtain evs r where p: "processEssayAgent env (retry_input essay) config True = (evs, r)"
    by (cases "processEssayAgent env (retry_input essay) config True") auto
  let ?updated = "r\<lparr>status := COMPLETED,
              gradingStatus := Some St_done,
              ocrStatus := (if ocrText r \<noteq> [] then Some (or_else (ocrStatus essay) St_done)
                            else ocrStatus essay),
              progressStep := Some Ps_done,
              progressMessage := Some msg_grading_done\<rparr>"
  let ?before = "[RegisterController (essay_id essay),
          UpdateEssay (essay_id essay)
            \<lparr>set_status = Some PROCESSING,
             set_gradingStatus = Some St_processing,
             set_progressStep = Some Ps_grading,
             set_progressMessage =
               Some (msg_grading_with_open @ provider_name (provider (cfg_model config)) @ '':''
                     @ model (cfg_model config) @ msg_grading_with_close),
             set_ocrText = None\<rparr>]
         @ concat (map (on_progress (essay_id essay)) evs)"
  have "runGradingStep env config essay =
          ?before @ [MergeEssay (essay_id essay) ?updated, CleanupController (essay_id essay)]"
    using p by (simp add: runGradingStep_def retry_input_def Let_def)
  moreover have "status ?updated = COMPLETED \<and> ocrText ?updated = ocrText r \<and>
                 gradingResult ?updated = gradingResult r" by simp
  ultimately show ?thesis using p by (metis snd_conv)
qed

lemma retry_input_text:
  "str_or (rawText (retry_input essay)) (ocrText (retry_input essay)) =
     str_or (rawText essay) (ocrText essay)"
  by (auto simp: retry_input_def str_or_def split: option.splits)

lemma agent_dispatches_text:
  assumes "trim (str_or (rawText essay) (ocrText essay)) \<noteq> []"
    and "\<not> aborted_on_entry env" and "\<not> aborted_before_grading env"
  shows "requests_of (fst (processEssayAgent env essay config True)) =
           fst (routeModel (http env) (api_keys env)
                  (text_bundle env config essay (str_or (rawText essay) (ocrText essay)))
                  config (aborted_at_dispatch env))"
proof -
  let ?text = "str_or (rawText essay) (ocrText essay)"
  have n: "?text \<noteq> []"
  proof
    assume "?text = []"
    then have "trim ?text = []" by (simp add: trim_Nil)
    with assms(1) show False by simp
  qed
  have b: "buildPromptBundle env essay config ?text = Inr (text_bundle env config essay ?text)"
    using assms(1) n by (simp add: buildPromptBundle_def text_bundle_def Let_def str_or_def)
  show ?thesis
    using assms(2) assms(3)
    by (auto simp: processEssayAgent_def agent_try_def ocr_step_skipped b Let_def
        requests_of_append requests_of_map
        split: prod.splits sum.splits option.splits)
qed

text \<open>
  Claim C1: the retry of an essay never calls \<open>transcribeHandwriting\<close>, inside which
  every request to the OCR vendor is made: its effects contain no such call, for every
  essay (so also for every essay that has OCR text or raw text). The steps it enters are
  "grading" and "done" only. When the essay is found, the retry re-enters the pipeline at
  the grading step: the first step entered is "grading", the agent is run on the essay
  with OCR skipped (the agent's effects within the retry are those of that run), and the
  retry ends by merging the agent's record into the essay, releasing the controller and
  clearing the processing flag. When the essay has usable text (its raw text, else its
  OCR text, does not trim to nothing), every request the retry sends to a model carries
  no image, and unless the signal is found aborted on entry or before grading, the
  requests sent are those of the model router for the prompt built from that text.
\<close>

theorem retry_reenters_at_grading:
  "filter is_transcribe (handleRetry env config all_essays essayId) = [] \<and>
   set (entered_steps (handleRetry env config all_essays essayId)) \<subseteq> {Ps_grading, Ps_done} \<and>
   (\<forall>target. find (\<lambda>e. essay_id e = essayId) all_essays = Some target \<longrightarrow>
      hd (entered_steps (handleRetry env config all_essays essayId)) = Ps_grading \<and>
      agent_events (handleRetry env config all_essays essayId) =
        fst (processEssayAgent env (retry_input target) config True) \<and>
      (\<exists>before updated.
         handleRetry env config all_essays essayId =
           before @ [MergeEssay (essay_id target) updated, CleanupController (essay_id target),
                     SetIsProcessing False] \<and>
         status updated = COMPLETED \<and>
         ocrText updated = ocrText (snd (processEssayAgent env (retry_input target) config True)) \<and>
         gradingResult updated =
           gradingResult (snd (processEssayAgent env (retry_input target) config True))) \<and>
      (trim (str_or (rawText target) (ocrText target)) \<noteq> [] \<longrightarrow>
         (\<forall>r. Agent (Request r) \<in> set (handleRetry env config all_essays essayId) \<longrightarrow>
               image (req_bundle r) = None) \<and>
         (\<not> aborted_on_entry env \<and> \<not> aborted_before_grading env \<longrightarrow>
            requests_of (agent_events (handleRetry env config all_essays essayId)) =
              fst (routeModel (http env) (api_keys env)
                     (text_bundle env config (retry_input target)
                        (str_or (rawText target) (ocrText target)))
                     config (aborted_at_dispatch env)))))"
proof (cases "find (\<lambda>e. essay_id e = essayId) all_essays")
  case None
  then show ?thesis by (simp add: handleRetry_def)
next
  case (Some target)
  have h: "handleRetry env config all_essays essayId =
             [SetIsProcessing True, SetActiveTab ''list''] @ runGradingStep env config target
             @ [SetIsProcessing False]"
    using Some by (simp add: handleRetry_def)
  have e: "entered_steps (handleRetry env config all_essays essayId) =
             entered_steps (runGradingStep env config target)"
    unfolding h by (simp add: entered_steps_append)
  have f: "filter is_transcribe (handleRetry env config all_essays essayId) =
             filter is_transcribe (runGradingStep env config target)"
    unfolding h by simp
  have q: "Agent (Request r) \<in> set (handleRetry env config all_essays essayId) \<Longrightarrow>
           Agent (Request r) \<in> set (runGradingStep env config target)" for r
    unfolding h by auto
  have a: "agent_events (handleRetry env config all_essays essayId) =
             fst (processEssayAgent env (retry_input target) config True)"
    unfolding h by (simp add: agent_events_append runGradingStep_agent)
  from runGradingStep_merges [of env config target]
  obtain before updated where
    m: "runGradingStep env config target =
          before @ [MergeEssay (essay_id target) updated, CleanupController (essay_id target)]"
    and u: "status updated = COMPLETED"
      "ocrText updated = ocrText (snd (processEssayAgent env (retry_input target) config True))"
      "gradingResult updated =
         gradingResult (snd (processEssayAgent env (retry_input target) config True))"
    by blast
  have m': "handleRetry env config all_essays essayId =
              ([SetIsProcessing True, SetActiveTab ''list''] @ before)
              @ [MergeEssay (essay_id target) updated, CleanupController (essay_id target),
                 SetIsProcessing False]"
    unfolding h m by simp
  have x: "\<exists>before updated.
         handleRetry env config all_essays essayId =
           before @ [MergeEssay (essay_id target) updated, CleanupController (essay_id target),
                     SetIsProcessing False] \<and>
         status updated = COMPLETED \<and>
         ocrText updated = ocrText (snd (processEssayAgent env (retry_input target) config True)) \<and>
         gradingResult updated =
           gradingResult (snd (processEssayAgent env (retry_input target) config True))"
    using m' u by blast
  have d: "trim (str_or (rawText target) (ocrText target)) \<noteq> [] \<Longrightarrow>
           \<not> aborted_on_entry env \<and> \<not> aborted_before_grading env \<Longrightarrow>
           requests_of (agent_events (handleRetry env config all_essays essayId)) =
              fst (routeModel (http env) (api_keys env)
                     (text_bundle env config (retry_input target)
                        (str_or (rawText target) (ocrText target)))
                     config (aborted_at_dispatch env))"
    unfolding a
    using agent_dispatches_text [of "retry_input target" env config] retry_input_text [of target]
    by simp
  have s: "hd (entered_steps (handleRetry env config all_essays essayId)) = Ps_grading"
    unfolding e using runGradingStep_steps [of env config target] by blast
  have i: "trim (str_or (rawText target) (ocrText target)) \<noteq> [] \<Longrightarrow>
           \<forall>r. Agent (Request r) \<in> set (handleRetry env config all_essays essayId) \<longrightarrow>
               image (req_bundle r) = None"
    using runGradingStep_requests [of target _ env config] q by blast
  have c1: "filter is_transcribe (handleRetry env config all_essays essayId) = []"
    unfolding f using runGradingStep_steps [of env config target] by blast
  have c2: "set (entered_steps (handleRetry env config all_essays essayId))
              \<subseteq> {Ps_grading, Ps_done}"
    unfolding e using runGradingStep_steps [of env config target] by blast
  show ?thesis
    using c1 c2 s a x i d Some by simp
qed

theorem retry_reenters_at_grading_witness:
  "filter is_transcribe
     (handleRetry (a_world False grading_reply) (config_for Openai ''gpt-4o-mini'')
        [an_essay Sub_image (Some (File ''essay.jpg'')) None ''Dear Tom''] ''e1'') = [] \<and>
   hd (entered_steps
     (handleRetry (a_world False grading_reply) (config_for Openai ''gpt-4o-mini'')
        [an_essay Sub_image (Some (File ''essay.jpg'')) None ''Dear Tom''] ''e1'')) = Ps_grading \<and>
   map (\<lambda>r. (req_url r, userPrompt (req_bundle r), image (req_bundle r)))
     (requests_of (agent_events
       (handleRetry (a_world False grading_reply) (config_for Openai ''gpt-4o-mini'')
          [an_essay Sub_image (Some (File ''essay.jpg'')) None ''Dear Tom''] ''e1'')))
     = [(''https://api.openai.com/v1/chat/completions'', ''Essay Text: Dear Tom'', None)]"
proof -
  define env where "env = a_world False grading_reply"
  define config where "config = config_for Openai ''gpt-4o-mini''"
  define target where "target = an_essay Sub_image (Some (File ''essay.jpg'')) None ''Dear Tom''"
  define run where "run = handleRetry env config [target] ''e1''"
  have f: "find (\<lambda>e. essay_id e = ''e1'') [target] = Some target"
    unfolding target_def by (simp add: an_essay_def)
  have t: "trim (str_or (rawText target) (ocrText target)) \<noteq> []"
    unfolding target_def by code_simp
  have n: "\<not> aborted_on_entry env \<and> \<not> aborted_before_grading env"
    unfolding env_def by code_simp
  have r: "map (\<lambda>r. (req_url r, userPrompt (req_bundle r), image (req_bundle r)))
             (fst (routeModel (http env) (api_keys env)
                     (text_bundle env config (retry_input target)
                        (str_or (rawText target) (ocrText target)))
                     config (aborted_at_dispatch env)))
           = [(''https://api.openai.com/v1/chat/completions'', ''Essay Text: Dear Tom'', None)]"
    unfolding env_def config_def target_def by code_simp
  note T = retry_reenters_at_grading [of env config "[target]" "''e1''", folded run_def]
  have c1: "filter is_transcribe run = []" using T by blast
  have c3: "hd (entered_steps run) = Ps_grading" using T f by blast
  have c4: "requests_of (agent_events run) =
              fst (routeModel (http env) (api_keys env)
                     (text_bundle env config (retry_input target)
                        (str_or (rawText target) (ocrText target)))
                     config (aborted_at_dispatch env))"
    using T f t n by blast
  have c5: "map (\<lambda>r. (req_url r, userPrompt (req_bundle r), image (req_bundle r)))
              (requests_of (agent_events run))
            = [(''https://api.openai.com/v1/chat/completions'', ''Essay Text: Dear Tom'', None)]"
    unfolding c4 by (rule r)
  show ?thesis
    using c1 c3 c5 unfolding run_def env_def config_def target_def by blast
qed

text \<open>
  By contrast, a first run of the agent on an image essay with its file (OCR not skipped)
  does call \<open>transcribeHandwriting\<close>: the second of its effects.
\<close>

lemma first_run_transcribes:
  "map is_transcribe (map Agent (fst (processEssayAgent (a_world False grading_reply)
       (an_essay Sub_image (Some (File ''essay.jpg'')) None ''Dear Tom'')
       (config_for Openai ''gpt-4o-mini'') False)))
   = [False, True, False, False, False, False]"
  by code_simp

lemma retry_steps_example:
  "entered_steps
     (handleRetry (a_world False grading_reply) (config_for Openai ''gpt-4o-mini'')
        [an_essay Sub_image (Some (File ''essay.jpg'')) None ''Dear Tom''] ''e1'')
   = [Ps_grading, Ps_grading, Ps_grading, Ps_done, Ps_done]"
  by code_simp

text \<open>
  A text of white space only is no usable text: the retry of an image essay whose OCR
  text is the single character U+3000 sends the image to the model.
\<close>

lemma blank_text_retry_sends_image:
  "map (\<lambda>r. image (req_bundle r))
     (requests_of (agent_events
       (handleRetry (a_world False grading_reply) (config_for Openai ''gpt-4o-mini'')
          [an_essay Sub_image (Some (File ''essay.jpg'')) None [CHR 0xE3, CHR 0x80, CHR 0x80]]
          ''e1'')))
     = [Some \<lparr>base64 = ''AAAA'', mimeType = ''image/jpeg''\<rparr>]"
  by code_simp

text \<open>
  On a reply that parses to \<open>null\<close> the agent reports the step "done" and then fails.
\<close>

lemma null_reply_reports_done:
  "entered_steps (map Agent (fst (processEssayAgent
       ((a_world False grading_reply)\<lparr>parse_reply := (\<lambda>txt. Inr None)\<rparr>)
       (an_essay Sub_text None (Some ''I has a dog'') [])
       (config_for Openai ''gpt-4o-mini'') True)))
     = [Ps_grading, Ps_done] \<and>
   status (snd (processEssayAgent
       ((a_world False grading_reply)\<lparr>parse_reply := (\<lambda>txt. Inr None)\<rparr>)
       (an_essay Sub_text None (Some ''I has a dog'') [])
       (config_for Openai ''gpt-4o-mini'') True)) = ERROR"
  by code_simp

text \<open>
  Property X1: whatever record the agent resolves to, also a cancelled or a failed one,
  \<open>runGradingStep\<close> ends by merging into the essay a record with status COMPLETED,
  grading sub-status "done" and progress step "done", which keeps the agent's error
  message and grading result: a cancelled retry leaves a COMPLETED essay without a
  grading result.
\<close>

theorem runGradingStep_always_marks_completed:
  "\<exists>updated.
     last (butlast (runGradingStep env config essay)) = MergeEssay (essay_id essay) updated \<and>
     status updated = COMPLETED \<and>
     gradingStatus updated = Some St_done \<and>
     progressStep updated = Some Ps_done \<and>
     errorMessage updated =
       errorMessage (snd (processEssayAgent env
         (essay\<lparr>ocrText := str_or (Some (ocrText essay)) (str_or (rawText essay) [])\<rparr>)
         config True)) \<and>
     gradingResult updated =
       gradingResult (snd (processEssayAgent env
         (essay\<lparr>ocrText := str_or (Some (ocrText essay)) (str_or (rawText essay) [])\<rparr>)
         config True))"
  by (auto simp: runGradingStep_def Let_def butlast_append split: prod.splits)

theorem runGradingStep_always_marks_completed_witness:
  "\<exists>updated.
     last (butlast (runGradingStep (a_world True grading_reply) (config_for Openai ''gpt-4o-mini'')
                      (an_essay Sub_image None None ''Dear Tom'')))
       = MergeEssay ''e1'' updated \<and>
     status updated = COMPLETED \<and>
     errorMessage updated = Some msg_user_cancelled \<and>
     gradingResult updated = None"
proof -
  let ?essay = "an_essay Sub_image None None ''Dear Tom''"
  have i: "essay_id ?essay = ''e1''" by (simp add: an_essay_def)
  have e: "errorMessage (snd (processEssayAgent (a_world True grading_reply)
         (?essay\<lparr>ocrText := str_or (Some (ocrText ?essay)) (str_or (rawText ?essay) [])\<rparr>)
         (config_for Openai ''gpt-4o-mini'') True)) = Some msg_user_cancelled"
    by code_simp
  have g: "gradingResult (snd (processEssayAgent (a_world True grading_reply)
         (?essay\<lparr>ocrText := str_or (Some (ocrText ?essay)) (str_or (rawText ?essay) [])\<rparr>)
         (config_for Openai ''gpt-4o-mini'') True)) = None"
    by code_simp
  from runGradingStep_always_marks_completed
    [of "a_world True grading_reply" "config_for Openai ''gpt-4o-mini''" ?essay]
  show ?thesis unfolding i e g by blast
qed

end
